theory Spec2Isabelle
  imports Main "HOL-Library.Word" "HOL-Library.Sublist"
begin

unbundle bit_operations_syntax

section \<open>Port admission policy (internal/config/config.go)\<close>

text \<open>
  Go's \<open>int\<close> is a 64-bit signed integer on the supported platforms. The policy code only
  compares ports, it never computes with them, so ports are modelled as \<open>int\<close>.
\<close>

record PortRange =
  Start :: int
  End :: int

record Config =
  ListenAddr :: string
  CertPath :: string
  KeyPath :: string
  SelfSigned :: bool
  DenyPorts :: "PortRange list"
  AllowRange :: PortRange
  Verbose :: bool
  AccessLog :: bool
  ReadHeaderTimeout :: int
  IdleTimeout :: int
  WriteTimeout :: int
  DialTimeout :: int

definition Contains :: "PortRange \<Rightarrow> int \<Rightarrow> bool" where
  \<comment> \<open>\<open>return port >= pr.Start && port <= pr.End\<close>\<close>
  "Contains pr port \<longleftrightarrow> port \<ge> Start pr \<and> port \<le> End pr"

fun denyLoop :: "PortRange list \<Rightarrow> int \<Rightarrow> bool" where
  \<comment> \<open>The \<open>for _, pr := range c.DenyPorts\<close> loop of \<open>IsPortAllowed\<close>: \<open>True\<close> when the loop
      reaches its early \<open>return false\<close>.\<close>
  "denyLoop [] port = False"
| "denyLoop (pr # prs) port = (if Contains pr port then True else denyLoop prs port)"

definition IsPortAllowed :: "Config \<Rightarrow> int \<Rightarrow> bool" where
  "IsPortAllowed c port =
     (if denyLoop (DenyPorts c) port then False else Contains (AllowRange c) port)"

section \<open>Strings and numbers of the Go standard library\<close>

text \<open>
  A Go string is a sequence of bytes; \<open>string\<close> (a list of 8-bit \<open>char\<close>) is the same.
  The library functions that the proxy calls are modelled by their documented behaviour,
  on all byte strings.
\<close>

definition isDigit :: "char \<Rightarrow> bool" where
  \<comment> \<open>The class \<open>\d\<close> of Go's regexp (RE2) syntax: exactly the ASCII digits.\<close>
  "isDigit c \<longleftrightarrow> 48 \<le> (of_char c :: nat) \<and> (of_char c :: nat) \<le> 57"

definition digitVal :: "char \<Rightarrow> nat" where
  \<comment> \<open>\<open>ch - '0'\<close>\<close>
  "digitVal c = (of_char c :: nat) - 48"

fun decimal :: "string \<Rightarrow> nat \<Rightarrow> nat option" where
  \<comment> \<open>The digit loop of \<open>strconv.Atoi\<close>: \<open>n = n*10 + int(ch - '0')\<close>, a syntax error
      (\<open>None\<close>) at the first byte that is not a digit.\<close>
  "decimal [] n = Some n"
| "decimal (c # cs) n = (if isDigit c then decimal cs (n * 10 + digitVal c) else None)"

definition maxInt :: nat where
  \<comment> \<open>\<open>math.MaxInt = 1<<63 - 1\<close>, where \<open>int\<close> has 64 bits\<close>
  "maxInt = 9223372036854775807"

definition Atoi :: "string \<Rightarrow> int option" where
  \<comment> \<open>\<open>strconv.Atoi\<close>: an optional sign, then one or more decimal digits; \<open>None\<close> stands for
      the error it returns on a syntax error or when the value does not fit \<open>int\<close>.\<close>
  "Atoi s =
     (case s of
        [] \<Rightarrow> None
      | c # cs \<Rightarrow>
          if c = CHR ''-'' \<or> c = CHR ''+'' then
            (if cs = [] then None
             else (case decimal cs 0 of
                     None \<Rightarrow> None
                   | Some n \<Rightarrow>
                       if c = CHR ''-'' then (if n > maxInt + 1 then None else Some (- int n))
                       else (if n > maxInt then None else Some (int n))))
          else (case decimal s 0 of
                  None \<Rightarrow> None
                | Some n \<Rightarrow> if n > maxInt then None else Some (int n)))"

fun natDigits :: "nat \<Rightarrow> string" where
  "natDigits n =
     (if n < 10 then [''0123456789'' ! n]
      else natDigits (n div 10) @ [''0123456789'' ! (n mod 10)])"

declare natDigits.simps [simp del]

definition Itoa :: "int \<Rightarrow> string" where
  \<comment> \<open>\<open>strconv.Itoa\<close>, which is also what the verb \<open>%d\<close> of \<open>fmt\<close> prints for an \<open>int\<close>.\<close>
  "Itoa i = (if i < 0 then CHR ''-'' # natDigits (nat (- i)) else natDigits (nat i))"

fun decimalValue :: "string \<Rightarrow> nat" where
  \<comment> \<open>The number a digit string denotes in positional notation (used to state results,
      not by the code).\<close>
  "decimalValue [] = 0"
| "decimalValue (c # cs) = digitVal c * 10 ^ length cs + decimalValue cs"

section \<open>Host resolution (proxy package)\<close>

text \<open>
  \<open>hostPattern = regexp.MustCompile(`^(\d+)\.(localhost|localtest\.me)(?::\d+)?$`)\<close>.
  The pattern is kept as a regular expression and run by a backtracking matcher that
  lists the possible remainders of the input in the priority order of Go's leftmost-first
  semantics (a greedy repetition tries its longest match first, an alternation its left
  branch first, an optional group its body first).
\<close>

datatype regex =
    Digits                \<comment> \<open>\<open>\d+\<close>\<close>
  | Lit string            \<comment> \<open>a literal string\<close>
  | Alt regex regex       \<comment> \<open>\<open>a|b\<close>\<close>
  | Seq regex regex       \<comment> \<open>\<open>ab\<close>\<close>
  | Opt regex             \<comment> \<open>\<open>a?\<close>\<close>

fun digitRests :: "string \<Rightarrow> string list" where
  "digitRests [] = []"
| "digitRests (c # cs) = (if isDigit c then digitRests cs @ [cs] else [])"

fun rests :: "regex \<Rightarrow> string \<Rightarrow> string list" where
  "rests Digits s = digitRests s"
| "rests (Lit l) s = (if prefix l s then [drop (length l) s] else [])"
| "rests (Alt a b) s = rests a s @ rests b s"
| "rests (Seq a b) s = concat (map (rests b) (rests a s))"
| "rests (Opt a) s = rests a s @ [s]"

definition hostPatternGroup1 :: regex where
  \<comment> \<open>\<open>(\d+)\<close>, the first capture group\<close>
  "hostPatternGroup1 = Digits"

definition hostPatternTail :: regex where
  \<comment> \<open>\<open>\.(localhost|localtest\.me)(?::\d+)?\<close>, what follows the first group\<close>
  "hostPatternTail =
     Seq (Lit ''.'')
       (Seq (Alt (Lit ''localhost'') (Lit ''localtest.me''))
            (Opt (Seq (Lit '':'') Digits)))"

definition FindStringSubmatch1 :: "string \<Rightarrow> string option" where
  \<comment> \<open>\<open>hostPattern.FindStringSubmatch(host)\<close>: \<open>None\<close> for the nil slice of no match,
      otherwise \<open>matches[1]\<close>, the text of the first group (the only element the caller
      reads). The anchors: \<open>^\<close> starts the match at the first byte, \<open>$\<close> (no flag \<open>m\<close>)
      accepts only the end of the text.\<close>
  "FindStringSubmatch1 host =
     (case filter (\<lambda>r. [] \<in> set (rests hostPatternTail r)) (rests hostPatternGroup1 host) of
        [] \<Rightarrow> None
      | r # _ \<Rightarrow> Some (take (length host - length r) host))"

definition ValidatePort :: "int \<Rightarrow> string option" where
  \<comment> \<open>\<open>config.ValidatePort\<close>: \<open>None\<close> is the nil error, \<open>Some msg\<close> an error with that text.\<close>
  "ValidatePort port =
     (if port < 1 \<or> port > 65535
      then Some (''port '' @ Itoa port @ '' out of valid range (1-65535)'')
      else None)"

definition parseHost :: "string \<Rightarrow> string + int" where
  \<comment> \<open>\<open>(*Server).parseHost\<close>; \<open>Inl msg\<close> is a returned error with text \<open>msg\<close>.\<close>
  "parseHost host =
     (case FindStringSubmatch1 host of
        None \<Rightarrow> Inl (''invalid host format: '' @ host)
      | Some portStr \<Rightarrow>
          (case Atoi portStr of
             None \<Rightarrow> Inl (''invalid port number: '' @ portStr)
           | Some port \<Rightarrow>
               (case ValidatePort port of
                  Some e \<Rightarrow> Inl e
                | None \<Rightarrow> Inr port)))"

text \<open>
  The grammar of the specification, written out without the matcher:
  \<open><digits>.localhost[:p]\<close> or \<open><digits>.localtest.me[:p]\<close>, where \<open><digits>\<close> is a
  non-empty run of ASCII digits and \<open>:p\<close> a colon followed by a non-empty run of digits.
  These two predicates follow the specification's words; the code is compared with them.
\<close>

definition portSuffix :: "string \<Rightarrow> bool" where
  "portSuffix p \<longleftrightarrow> p = [] \<or> (\<exists>ps. p = CHR '':'' # ps \<and> ps \<noteq> [] \<and> list_all isDigit ps)"

definition hostGrammar :: "string \<Rightarrow> string \<Rightarrow> bool" where
  \<comment> \<open>\<open>hostGrammar ds h\<close>: the host \<open>h\<close> is in the grammar, with digit run \<open>ds\<close>.\<close>
  "hostGrammar ds h \<longleftrightarrow>
     ds \<noteq> [] \<and> list_all isDigit ds \<and>
     (\<exists>p. portSuffix p \<and> (h = ds @ ''.localhost'' @ p \<or> h = ds @ ''.localtest.me'' @ p))"

section \<open>HTTP headers and requests (net/http)\<close>

definition isUpperAZ :: "char \<Rightarrow> bool" where
  "isUpperAZ c \<longleftrightarrow> 65 \<le> (of_char c :: nat) \<and> (of_char c :: nat) \<le> 90"

definition isLowerAZ :: "char \<Rightarrow> bool" where
  "isLowerAZ c \<longleftrightarrow> 97 \<le> (of_char c :: nat) \<and> (of_char c :: nat) \<le> 122"

definition toLowerByte :: "char \<Rightarrow> char" where
  \<comment> \<open>\<open>c + ('a' - 'A')\<close> for an upper-case letter\<close>
  "toLowerByte c =
     (if isUpperAZ c then ''abcdefghijklmnopqrstuvwxyz'' ! ((of_char c :: nat) - 65) else c)"

definition toUpperByte :: "char \<Rightarrow> char" where
  \<comment> \<open>\<open>c - ('a' - 'A')\<close> for a lower-case letter\<close>
  "toUpperByte c =
     (if isLowerAZ c then ''ABCDEFGHIJKLMNOPQRSTUVWXYZ'' ! ((of_char c :: nat) - 97) else c)"

definition ToLower :: "string \<Rightarrow> string" where
  \<comment> \<open>\<open>strings.ToLower\<close> on a string of ASCII bytes: \<open>A\<close>..\<open>Z\<close> become \<open>a\<close>..\<open>z\<close>.
      Bytes from 0x80 on are left as they are here; Go decodes them as UTF-8 and lowers
      letters outside ASCII too, so the model is Go's function on ASCII header values.\<close>
  "ToLower s = map toLowerByte s"

fun strings_Contains :: "string \<Rightarrow> string \<Rightarrow> bool" where
  \<comment> \<open>\<open>strings.Contains(s, substr)\<close>: \<open>substr\<close> occurs in \<open>s\<close> as a contiguous run.\<close>
  "strings_Contains [] sub = (sub = [])"
| "strings_Contains (c # cs) sub = (prefix sub (c # cs) \<or> strings_Contains cs sub)"

definition validHeaderFieldByte :: "char \<Rightarrow> bool" where
  \<comment> \<open>the token characters of RFC 7230: letters, digits and a few signs\<close>
  "validHeaderFieldByte c \<longleftrightarrow>
     isLowerAZ c \<or> isUpperAZ c \<or> isDigit c \<or>
     c \<in> set (''!#$%&*+-.^_|~'' @ [CHR 0x27, CHR 0x60])"

fun canonLoop :: "bool \<Rightarrow> string \<Rightarrow> string" where
  \<comment> \<open>upper case for the first letter and after each dash, lower case elsewhere\<close>
  "canonLoop upper [] = []"
| "canonLoop upper (c # cs) =
     (if upper \<and> isLowerAZ c then toUpperByte c # canonLoop False cs
      else if \<not> upper \<and> isUpperAZ c then toLowerByte c # canonLoop False cs
      else c # canonLoop (c = CHR ''-'') cs)"

definition CanonicalMIMEHeaderKey :: "string \<Rightarrow> string" where
  \<comment> \<open>\<open>textproto.CanonicalMIMEHeaderKey\<close>, which \<open>Header.Get\<close>, \<open>Set\<close> and \<open>Del\<close>
      apply to their key; a key with a byte that is not a token character is returned
      unchanged.\<close>
  "CanonicalMIMEHeaderKey s = (if list_all validHeaderFieldByte s then canonLoop True s else s)"

type_synonym Header = "string \<rightharpoonup> string list"

definition HeaderGet :: "Header \<Rightarrow> string \<Rightarrow> string" where
  \<comment> \<open>\<open>h.Get(key)\<close>: the first value of the key, or the empty string\<close>
  "HeaderGet h key =
     (case h (CanonicalMIMEHeaderKey key) of None \<Rightarrow> [] | Some [] \<Rightarrow> [] | Some (v # _) \<Rightarrow> v)"

definition HeaderSet :: "Header \<Rightarrow> string \<Rightarrow> string \<Rightarrow> Header" where
  "HeaderSet h key v = h(CanonicalMIMEHeaderKey key \<mapsto> [v])"

definition HeaderDel :: "Header \<Rightarrow> string \<Rightarrow> Header" where
  "HeaderDel h key = h(CanonicalMIMEHeaderKey key := None)"

record URL =
  Scheme :: string
  URLHost :: string
  Path :: string
  RawQuery :: string

record Request =
  Method :: string
  ReqURL :: URL
  ReqHeader :: Header
  Body :: "string list"   \<comment> \<open>the body, as the chunks a reader gets\<close>
  Host :: string
  RemoteAddr :: string

section \<open>Protocol dispatch (proxy package)\<close>

definition isWebSocketRequest :: "Request \<Rightarrow> bool" where
  "isWebSocketRequest r =
     (let connection = ToLower (HeaderGet (ReqHeader r) ''Connection'');
          upgrade = ToLower (HeaderGet (ReqHeader r) ''Upgrade'')
      in strings_Contains connection ''upgrade'' \<and> upgrade = ''websocket'')"

text \<open>
  The classification as the specification words it: the Connection header is a
  comma-separated list of tokens, each with optional blanks around it, and the request is
  a stream upgrade when one token is \<open>upgrade\<close> in any letter case and the Upgrade header
  is \<open>websocket\<close> in any letter case.
\<close>

fun splitComma :: "string \<Rightarrow> string list" where
  "splitComma [] = [[]]"
| "splitComma (c # cs) =
     (if c = CHR '','' then [] # splitComma cs
      else (case splitComma cs of [] \<Rightarrow> [[c]] | w # ws \<Rightarrow> (c # w) # ws))"

definition isBlank :: "char \<Rightarrow> bool" where
  "isBlank c \<longleftrightarrow> c = CHR '' '' \<or> c = CHR 0x09"

definition trimBlanks :: "string \<Rightarrow> string" where
  "trimBlanks s = rev (dropWhile isBlank (rev (dropWhile isBlank s)))"



section \<open>The response wrapper (proxy package)\<close>

text \<open>
  \<open>responseWriter\<close> embeds an \<open>http.ResponseWriter\<close>, an interface. The wrapped writer is
  a state of any type \<open>'u\<close> together with its two methods; \<open>Write\<close> returns the count
  \<open>n\<close> and the error of the interface (\<open>None\<close> for nil).
\<close>

type_synonym writeResult = "nat \<times> string option"

record 'u WriterMethods =
  uWriteHeader :: "'u \<Rightarrow> int \<Rightarrow> 'u"
  uWrite :: "'u \<Rightarrow> string \<Rightarrow> writeResult \<times> 'u"

record 'u responseWriter =
  ResponseWriter :: 'u
  statusCode :: int
  bytesWritten :: "64 word"   \<comment> \<open>\<open>int64\<close>\<close>
  err :: "string option"
  wroteHeader :: bool

definition newResponseWriter :: "'u \<Rightarrow> 'u responseWriter" where
  \<comment> \<open>\<open>&responseWriter{ResponseWriter: w, statusCode: http.StatusOK}\<close>\<close>
  "newResponseWriter w =
     \<lparr>ResponseWriter = w, statusCode = 200, bytesWritten = 0, err = None, wroteHeader = False\<rparr>"

definition rw_WriteHeader :: "'u WriterMethods \<Rightarrow> 'u responseWriter \<Rightarrow> int \<Rightarrow> 'u responseWriter" where
  "rw_WriteHeader m rw code =
     (if \<not> wroteHeader rw
      then rw\<lparr>statusCode := code, wroteHeader := True,
              ResponseWriter := uWriteHeader m (ResponseWriter rw) code\<rparr>
      else rw)"

definition rw_Write :: "'u WriterMethods \<Rightarrow> 'u responseWriter \<Rightarrow> string \<Rightarrow> writeResult \<times> 'u responseWriter" where
  "rw_Write m rw b =
     (let rw1 = (if \<not> wroteHeader rw then rw_WriteHeader m rw 200 else rw);
          (res, u') = uWrite m (ResponseWriter rw1) b
      in (res, rw1\<lparr>ResponseWriter := u', bytesWritten := bytesWritten rw1 + of_nat (fst res)\<rparr>))"

text \<open>
  A caller's use of a writer is a sequence of calls. \<open>rw_run\<close> makes the calls on the
  wrapper and \<open>u_run\<close> on a bare writer; both return the results of the \<open>Write\<close> calls in
  order. \<open>passed\<close> is the sequence of calls that should reach the wrapped writer: the
  first \<open>WriteHeader\<close> only, an implicit \<open>WriteHeader(200)\<close> in front of a first \<open>Write\<close>,
  and every \<open>Write\<close> with its argument as it is.
\<close>

datatype call = WriteHeaderCall int | WriteCall string

fun rw_run :: "'u WriterMethods \<Rightarrow> 'u responseWriter \<Rightarrow> call list \<Rightarrow> writeResult list \<times> 'u responseWriter" where
  "rw_run m rw [] = ([], rw)"
| "rw_run m rw (WriteHeaderCall code # cs) = rw_run m (rw_WriteHeader m rw code) cs"
| "rw_run m rw (WriteCall b # cs) =
     (case rw_Write m rw b of (res, rw') \<Rightarrow>
        (case rw_run m rw' cs of (rs, rw'') \<Rightarrow> (res # rs, rw'')))"

fun u_run :: "'u WriterMethods \<Rightarrow> 'u \<Rightarrow> call list \<Rightarrow> writeResult list \<times> 'u" where
  "u_run m u [] = ([], u)"
| "u_run m u (WriteHeaderCall code # cs) = u_run m (uWriteHeader m u code) cs"
| "u_run m u (WriteCall b # cs) =
     (case uWrite m u b of (res, u') \<Rightarrow>
        (case u_run m u' cs of (rs, u'') \<Rightarrow> (res # rs, u'')))"

fun passed :: "bool \<Rightarrow> call list \<Rightarrow> call list" where
  "passed wrote [] = []"
| "passed wrote (WriteHeaderCall code # cs) =
     (if wrote then passed wrote cs else WriteHeaderCall code # passed True cs)"
| "passed wrote (WriteCall b # cs) =
     (if wrote then WriteCall b # passed True cs
      else WriteHeaderCall 200 # WriteCall b # passed True cs)"

fun writesOf :: "call list \<Rightarrow> string list" where
  "writesOf [] = []"
| "writesOf (WriteHeaderCall code # cs) = writesOf cs"
| "writesOf (WriteCall b # cs) = b # writesOf cs"

section \<open>The world around one request\<close>

text \<open>
  What the code reads from outside the repository while it serves one request is collected
  in a record: the clock, the outcome of the network operations, and two library
  functions whose byte-level results the properties do not depend on
  (\<open>net.SplitHostPort\<close> and the encoder of \<open>encoding/json\<close>).
\<close>

record netError =
  errText :: string        \<comment> \<open>\<open>err.Error()\<close>\<close>
  errTimeout :: bool       \<comment> \<open>\<open>err\<close> is a \<open>net.Error\<close> whose \<open>Timeout()\<close> is true\<close>

record Response =
  StatusCode :: int
  RespHeader :: Header
  RespBody :: "string list"   \<comment> \<open>the body, as the chunks the copy loop reads\<close>

record World =
  nowUnixNano :: int                                   \<comment> \<open>\<open>time.Now().UnixNano()\<close>\<close>
  splitHostPort :: "string \<Rightarrow> (string \<times> string) option" \<comment> \<open>\<open>net.SplitHostPort\<close>, \<open>None\<close> on error\<close>
  encodeJSON :: "(string \<times> string) list \<Rightarrow> string"   \<comment> \<open>the JSON text of an object of string members\<close>
  roundTrip :: "Request \<Rightarrow> netError + Response"       \<comment> \<open>\<open>transport.RoundTrip(outreq)\<close>\<close>
  dialOK :: bool                                       \<comment> \<open>\<open>net.DialTimeout\<close> to the backend succeeds\<close>
  hijackOK :: bool                                     \<comment> \<open>\<open>hijacker.Hijack()\<close> returns no error\<close>
  writeRequestOK :: bool                               \<comment> \<open>\<open>r.Write(backendConn)\<close> returns no error\<close>
  backendStream :: string                              \<comment> \<open>the bytes the backend sends on the tunnel\<close>

section \<open>The server's response writer (net/http)\<close>

text \<open>
  The \<open>http.ResponseWriter\<close> that the server hands to \<open>ServeHTTP\<close>: a header map that
  can be changed until the status line is written, the status line with the headers as
  they were at that moment, and the body bytes. Writing the body first writes the status
  200; a second \<open>WriteHeader\<close> is ignored. The client's connection is taken to accept
  every write.
\<close>

record httpWriter =
  wHeader :: Header
  wStatus :: "int option"
  wSentHeader :: Header
  wBody :: string
  wHijacker :: bool          \<comment> \<open>the writer implements \<open>http.Hijacker\<close>\<close>

definition freshWriter :: "bool \<Rightarrow> httpWriter" where
  "freshWriter hij =
     \<lparr>wHeader = Map.empty, wStatus = None, wSentHeader = Map.empty, wBody = [], wHijacker = hij\<rparr>"

definition netWriteHeader :: "httpWriter \<Rightarrow> int \<Rightarrow> httpWriter" where
  "netWriteHeader w code =
     (if wStatus w = None then w\<lparr>wStatus := Some code, wSentHeader := wHeader w\<rparr> else w)"

definition netWrite :: "httpWriter \<Rightarrow> string \<Rightarrow> writeResult \<times> httpWriter" where
  "netWrite w b =
     (let w1 = (if wStatus w = None then netWriteHeader w 200 else w)
      in ((length b, None), w1\<lparr>wBody := wBody w1 @ b\<rparr>))"

definition netMethods :: "httpWriter WriterMethods" where
  "netMethods = \<lparr>uWriteHeader = netWriteHeader, uWrite = netWrite\<rparr>"

datatype clientSees =
    HTTPResponse int Header string   \<comment> \<open>status, headers and body of the response\<close>
  | RawStream string                 \<comment> \<open>the bytes relayed on a taken-over connection\<close>

definition finishResponse :: "httpWriter \<Rightarrow> clientSees" where
  \<comment> \<open>what the server has sent when the handler returns without a takeover\<close>
  "finishResponse w =
     (case wStatus w of
        None \<Rightarrow> HTTPResponse 200 (wHeader w) (wBody w)
      | Some code \<Rightarrow> HTTPResponse code (wSentHeader w) (wBody w))"

section \<open>Error responses (proxy package)\<close>

record ErrorResponse =
  Error :: string      \<comment> \<open>\<open>json:"error"\<close>\<close>
  Hint :: string       \<comment> \<open>\<open>json:"hint,omitempty"\<close>\<close>
  Example :: string    \<comment> \<open>\<open>json:"example,omitempty"\<close>\<close>

definition jsonMembers :: "ErrorResponse \<Rightarrow> (string \<times> string) list" where
  \<comment> \<open>the members that \<open>encoding/json\<close> writes for the struct, by its field tags\<close>
  "jsonMembers e =
     [(''error'', Error e)]
     @ (if Hint e = [] then [] else [(''hint'', Hint e)])
     @ (if Example e = [] then [] else [(''example'', Example e)])"

definition jsonLine :: "World \<Rightarrow> ErrorResponse \<Rightarrow> string" where
  \<comment> \<open>\<open>json.NewEncoder(w).Encode(resp)\<close> writes the object and a newline\<close>
  "jsonLine world e = encodeJSON world (jsonMembers e) @ [CHR 0x0A]"

definition writeJSONError :: "World \<Rightarrow> httpWriter \<Rightarrow> int \<Rightarrow> string \<Rightarrow> string \<Rightarrow> string \<Rightarrow> httpWriter" where
  \<comment> \<open>\<open>writeJSONError\<close> called with the server's own writer\<close>
  "writeJSONError world w code errMsg hint example =
     (let w1 = w\<lparr>wHeader := HeaderSet (wHeader w) ''Content-Type'' ''application/json''\<rparr>;
          w2 = netWriteHeader w1 code;
          resp = \<lparr>Error = errMsg, Hint = hint, Example = example\<rparr>
      in snd (netWrite w2 (jsonLine world resp)))"

definition writeJSONError_rw ::
  "World \<Rightarrow> httpWriter responseWriter \<Rightarrow> int \<Rightarrow> string \<Rightarrow> string \<Rightarrow> string \<Rightarrow> httpWriter responseWriter" where
  \<comment> \<open>\<open>writeJSONError\<close> called with the wrapper: \<open>Header()\<close> is the embedded writer's,
      \<open>WriteHeader\<close> and \<open>Write\<close> are the wrapper's\<close>
  "writeJSONError_rw world rw code errMsg hint example =
     (let u = ResponseWriter rw;
          rw1 = rw\<lparr>ResponseWriter := u\<lparr>wHeader := HeaderSet (wHeader u) ''Content-Type'' ''application/json''\<rparr>\<rparr>;
          rw2 = rw_WriteHeader netMethods rw1 code;
          resp = \<lparr>Error = errMsg, Hint = hint, Example = example\<rparr>
      in snd (rw_Write netMethods rw2 (jsonLine world resp)))"

definition handleError :: "World \<Rightarrow> httpWriter \<Rightarrow> int \<Rightarrow> string \<Rightarrow> string \<Rightarrow> string \<Rightarrow> httpWriter" where
  "handleError world w code errMsg hint example =
     writeJSONError world w code errMsg hint example"

section \<open>HTTP forwarding (proxy package and net/http/httputil)\<close>

definition director :: "World \<Rightarrow> Request \<Rightarrow> string \<Rightarrow> int \<Rightarrow> Request \<Rightarrow> Request" where
  \<comment> \<open>The \<open>Director\<close> closure of \<open>handleHTTP\<close>. \<open>r\<close> is the inbound request, \<open>req\<close> the
      outbound request it modifies; \<open>target\<close> is \<open>http://127.0.0.1:<port>\<close>.\<close>
  "director world r requestID port req =
     (let u = (ReqURL req)\<lparr>Scheme := ''http'', URLHost := ''127.0.0.1:'' @ Itoa port\<rparr>;
          h = ReqHeader req;
          h1 = (case splitHostPort world (RemoteAddr r) of
                  Some (clientIP, _) \<Rightarrow>
                    (let prior = HeaderGet h ''X-Forwarded-For'';
                         clientIP' = (if prior \<noteq> [] then prior @ '', '' @ clientIP else clientIP)
                     in HeaderSet h ''X-Forwarded-For'' clientIP')
                | None \<Rightarrow> h);
          h2 = HeaderSet h1 ''X-Forwarded-Proto'' ''https'';
          h3 = HeaderSet h2 ''X-Forwarded-Host'' (Host r);
          h4 = HeaderSet h3 ''X-Request-ID'' requestID
      in req\<lparr>ReqURL := u, Host := Host r, ReqHeader := h4\<rparr>)"

text \<open>
  \<open>proxy.ServeHTTP(w, r)\<close> is the library's \<open>httputil.ReverseProxy\<close>. Between the
  \<open>Director\<close> and the transport it removes the hop-by-hop headers from the outbound
  request (those named in the Connection header, then a fixed list) and, when no
  \<open>Rewrite\<close> function is set, appends the client address of \<open>net.SplitHostPort\<close> to
  \<open>X-Forwarded-For\<close> itself. The model follows these two steps; what the library does
  to the headers Te, Connection, Upgrade and User-Agent afterwards is left out, so the
  model's outbound header agrees with the library's on every other key. Of the
  response path the model has the removal of hop-by-hop headers, the copy of the
  backend's headers behind those already set, the status line and the copy of the body
  chunk by chunk; informational (1xx) responses, trailers and a copy that breaks off are
  outside the model. Where the library refuses an upgrade request before the round trip,
  it calls the same \<open>ErrorHandler\<close>: such a refusal counts as a failed round trip.
\<close>

definition hopHeaders :: "string list" where
  "hopHeaders = [''Connection'', ''Proxy-Connection'', ''Keep-Alive'', ''Proxy-Authenticate'',
                 ''Proxy-Authorization'', ''Te'', ''Trailer'', ''Transfer-Encoding'', ''Upgrade'']"

definition connectionTokens :: "Header \<Rightarrow> string list" where
  \<comment> \<open>the fields of every Connection value, split at commas and trimmed
      (\<open>textproto.TrimString\<close>, which also trims CR and LF; a header value has neither)\<close>
  "connectionTokens h =
     filter (\<lambda>sf. sf \<noteq> [])
       (concat (map (\<lambda>f. map trimBlanks (splitComma f))
                    (case h ''Connection'' of None \<Rightarrow> [] | Some vs \<Rightarrow> vs)))"

definition removeHopByHopHeaders :: "Header \<Rightarrow> Header" where
  "removeHopByHopHeaders h = foldl HeaderDel (foldl HeaderDel h (connectionTokens h)) hopHeaders"

fun joinCommaSpace :: "string list \<Rightarrow> string" where
  \<comment> \<open>\<open>strings.Join(vs, ", ")\<close>\<close>
  "joinCommaSpace [] = []"
| "joinCommaSpace [v] = v"
| "joinCommaSpace (v # vs) = v @ '', '' @ joinCommaSpace vs"

definition libForwardedFor :: "World \<Rightarrow> Request \<Rightarrow> Header \<Rightarrow> Header" where
  \<comment> \<open>the library's own X-Forwarded-For step; a key present with no value means
      "do not populate"\<close>
  "libForwardedFor world r h =
     (case splitHostPort world (RemoteAddr r) of
        None \<Rightarrow> h
      | Some (clientIP, _) \<Rightarrow>
          (case h ''X-Forwarded-For'' of
             None \<Rightarrow> HeaderSet h ''X-Forwarded-For'' clientIP
           | Some [] \<Rightarrow> h
           | Some (v # vs) \<Rightarrow>
               HeaderSet h ''X-Forwarded-For'' (joinCommaSpace (v # vs) @ '', '' @ clientIP)))"

definition outboundRequest :: "World \<Rightarrow> Request \<Rightarrow> string \<Rightarrow> int \<Rightarrow> Request" where
  \<comment> \<open>the request the transport sends: a clone of the inbound request after the
      \<open>Director\<close> and the library's two header steps\<close>
  "outboundRequest world r requestID port =
     (let outreq = director world r requestID port r
      in outreq\<lparr>ReqHeader :=
           libForwardedFor world r (removeHopByHopHeaders (ReqHeader outreq))\<rparr>)"

definition copyHeader :: "Header \<Rightarrow> Header \<Rightarrow> Header" where
  \<comment> \<open>\<open>dst.Add(k, v)\<close> for every value \<open>v\<close> of every key \<open>k\<close> of \<open>src\<close> (whose keys are canonical)\<close>
  "copyHeader dst src =
     (\<lambda>k. case src k of
            None \<Rightarrow> dst k
          | Some [] \<Rightarrow> dst k
          | Some (v # vs) \<Rightarrow> Some ((case dst k of None \<Rightarrow> [] | Some ds \<Rightarrow> ds) @ v # vs))"

fun copyResponse :: "httpWriter responseWriter \<Rightarrow> string list \<Rightarrow> httpWriter responseWriter" where
  \<comment> \<open>one \<open>Write\<close> on the wrapper for every chunk read from the backend's body\<close>
  "copyResponse rw [] = rw"
| "copyResponse rw (b # bs) = copyResponse (snd (rw_Write netMethods rw b)) bs"

definition errorHandler :: "World \<Rightarrow> httpWriter responseWriter \<Rightarrow> int \<Rightarrow> netError \<Rightarrow> httpWriter responseWriter" where
  \<comment> \<open>The \<open>ErrorHandler\<close> closure of \<open>handleHTTP\<close>; its \<open>rw\<close> is the wrapper \<open>w\<close> that
      \<open>proxy.ServeHTTP\<close> was given.\<close>
  "errorHandler world w port e =
     (let w1 = w\<lparr>err := Some (errText e)\<rparr>;
          errMsg = (if errTimeout e then ''Request timed out''
                    else if strings_Contains (errText e) ''connection refused'' then ''Connection refused''
                    else ''Backend service unavailable'');
          hint = (if errTimeout e then ''The backend service took too long to respond''
                  else if strings_Contains (errText e) ''connection refused''
                    then ''No service is listening on port '' @ Itoa port
                  else ''Make sure a service is running on port '' @ Itoa port)
      in writeJSONError_rw world w1 502 errMsg hint [])"

definition handleHTTP :: "World \<Rightarrow> httpWriter responseWriter \<Rightarrow> Request \<Rightarrow> string \<Rightarrow> int \<Rightarrow> httpWriter responseWriter" where
  "handleHTTP world w r requestID port =
     (case roundTrip world (outboundRequest world r requestID port) of
        Inl e \<Rightarrow> errorHandler world w port e
      | Inr res \<Rightarrow>
          (let u = ResponseWriter w;
               w1 = w\<lparr>ResponseWriter :=
                      u\<lparr>wHeader := copyHeader (wHeader u) (removeHopByHopHeaders (RespHeader res))\<rparr>\<rparr>;
               w2 = rw_WriteHeader netMethods w1 (StatusCode res)
           in copyResponse w2 (RespBody res)))"

section \<open>The stream tunnel (proxy package)\<close>

definition handleWebSocket :: "World \<Rightarrow> httpWriter responseWriter \<Rightarrow> Request \<Rightarrow> string \<Rightarrow> int \<Rightarrow> clientSees" where
  \<comment> \<open>What the client has received when \<open>handleWebSocket\<close> returns. Every error response
      is written to \<open>w.ResponseWriter\<close>, the server's own writer. After the takeover the
      two copy loops relay bytes as they are; the client receives the backend's stream.\<close>
  "handleWebSocket world w r requestID port =
     (if \<not> dialOK world then
        finishResponse (handleError world (ResponseWriter w) 502 ''Failed to connect to backend''
           (''Make sure a service is running on port '' @ Itoa port) [])
      else if \<not> wHijacker (ResponseWriter w) then
        finishResponse (handleError world (ResponseWriter w) 500
           ''WebSocket hijacking not supported'' [] [])
      else if \<not> hijackOK world then
        finishResponse (handleError world (ResponseWriter w) 500
           ''Failed to hijack connection'' [] [])
      else if \<not> writeRequestOK world then RawStream []
      else RawStream (backendStream world))"

section \<open>The request handler (proxy package)\<close>

text \<open>
  Of the \<open>Server\<close> struct the model keeps the configuration and the counter of request
  ids. The logger and the pool of transports do not touch the response; the calls of the
  logger are left out of the handler.
\<close>

record Server =
  cfg :: Config
  requestIDGen :: "64 word"     \<comment> \<open>\<open>atomic.Uint64\<close>\<close>

definition generateRequestID :: "World \<Rightarrow> Server \<Rightarrow> string \<times> Server" where
  "generateRequestID world s =
     (let id = requestIDGen s + 1
      in (Itoa (nowUnixNano world) @ ''-'' @ natDigits (unat id), s\<lparr>requestIDGen := id\<rparr>))"

record Served =
  serverAfter :: Server
  client :: clientSees
  sentToBackend :: "Request option"   \<comment> \<open>the request given to the transport, if any\<close>

definition ServeHTTP :: "World \<Rightarrow> Server \<Rightarrow> httpWriter \<Rightarrow> Request \<Rightarrow> Served" where
  "ServeHTTP world s w r =
     (let (requestID, s') = generateRequestID world s;
          w1 = w\<lparr>wHeader := HeaderSet (wHeader w) ''X-Request-ID'' requestID\<rparr>
      in case parseHost (Host r) of
           Inl e \<Rightarrow>
             \<lparr>serverAfter = s',
              client = finishResponse (handleError world w1 400 e
                         ''Use format: https://<port>.localhost'' ''https://8000.localhost''),
              sentToBackend = None\<rparr>
         | Inr port \<Rightarrow>
             if \<not> IsPortAllowed (cfg s) port then
               \<lparr>serverAfter = s',
                client = finishResponse (handleError world w1 403
                           (''Port '' @ Itoa port @ '' is not allowed'')
                           ''This port is either denied or outside the allowed range''
                           ''https://8000.localhost''),
                sentToBackend = None\<rparr>
             else
               (let rw = newResponseWriter w1
                in if isWebSocketRequest r then
                     \<lparr>serverAfter = s',
                      client = handleWebSocket world rw r requestID port,
                      sentToBackend = None\<rparr>
                   else
                     \<lparr>serverAfter = s',
                      client = finishResponse (ResponseWriter (handleHTTP world rw r requestID port)),
                      sentToBackend = Some (outboundRequest world r requestID port)\<rparr>))"


section \<open>Certificate provisioning (internal/tls/tls.go)\<close>

text \<open>
  The package's \<open>Config\<close> struct has the fields \<open>CertPath\<close>, \<open>KeyPath\<close> and
  \<open>SelfSigned\<close>; the record is named after the package, \<open>tlsutil\<close>, because the
  configuration record above has fields of the same names.
\<close>

record tlsutilConfig =
  tlsCertPath :: string
  tlsKeyPath :: string
  tlsSelfSigned :: bool

datatype ExtKeyUsage = ExtKeyUsageAny | ExtKeyUsageServerAuth | ExtKeyUsageClientAuth

text \<open>
  The fields of \<open>x509.Certificate\<close> that the two templates set. \<open>KeyUsage\<close> is a bit set
  in an \<open>int\<close>; an instant is a count of nanoseconds.
\<close>

record Certificate =
  SerialNumber :: int
  Organization :: "string list"
  CommonName :: string
  NotBefore :: int
  NotAfter :: int
  KeyUsage :: int
  ExtKeyUsages :: "ExtKeyUsage list"
  BasicConstraintsValid :: bool
  IsCA :: bool
  MaxPathLen :: int
  MaxPathLenZero :: bool
  DNSNames :: "string list"
  IPAddresses :: "string list"

definition KeyUsageDigitalSignature :: int where "KeyUsageDigitalSignature = 1"
definition KeyUsageContentCommitment :: int where "KeyUsageContentCommitment = 2"
definition KeyUsageKeyEncipherment :: int where "KeyUsageKeyEncipherment = 4"
definition KeyUsageDataEncipherment :: int where "KeyUsageDataEncipherment = 8"
definition KeyUsageKeyAgreement :: int where "KeyUsageKeyAgreement = 16"
definition KeyUsageCertSign :: int where "KeyUsageCertSign = 32"
definition KeyUsageCRLSign :: int where "KeyUsageCRLSign = 64"
definition KeyUsageEncipherOnly :: int where "KeyUsageEncipherOnly = 128"
definition KeyUsageDecipherOnly :: int where "KeyUsageDecipherOnly = 256"

definition allKeyUsages :: "int list" where
  "allKeyUsages =
     [KeyUsageDigitalSignature, KeyUsageContentCommitment, KeyUsageKeyEncipherment,
      KeyUsageDataEncipherment, KeyUsageKeyAgreement, KeyUsageCertSign, KeyUsageCRLSign,
      KeyUsageEncipherOnly, KeyUsageDecipherOnly]"

definition Hour :: int where
  \<comment> \<open>\<open>time.Hour\<close>, in nanoseconds\<close>
  "Hour = 3600000000000"

text \<open>
  The library functions that provisioning calls and that are functions of their
  arguments, and what one run of provisioning gets from outside: the clock readings, the
  random choices inside key generation and signing, and whether the directory and the
  files can be made and written. \<open>'k\<close> is a key pair and \<open>'c\<close> a loaded
  \<open>tls.Certificate\<close>.
\<close>

record ('c, 'k) CertLib =
  x509KeyPair :: "string \<Rightarrow> string \<Rightarrow> 'c option"  \<comment> \<open>\<open>tls.X509KeyPair\<close> on the two PEM texts\<close>
  parseCertificate :: "string \<Rightarrow> Certificate option"
  marshalECPrivateKey :: "'k \<Rightarrow> string option"
  pemEncode :: "string \<Rightarrow> string \<Rightarrow> string"      \<comment> \<open>the PEM text of a block: type and bytes\<close>
  addDate :: "int \<Rightarrow> int \<Rightarrow> int \<Rightarrow> int \<Rightarrow> int"      \<comment> \<open>\<open>t.AddDate(years, months, days)\<close>\<close>
  pathDir :: "string \<Rightarrow> string"                  \<comment> \<open>\<open>filepath.Dir\<close>\<close>
  pathJoin :: "string \<Rightarrow> string \<Rightarrow> string"        \<comment> \<open>\<open>filepath.Join\<close>\<close>

record 'k ProvisionRun =
  clock :: "nat \<Rightarrow> int"                 \<comment> \<open>the readings of \<open>time.Now()\<close>, in order\<close>
  generateKey :: "nat \<Rightarrow> 'k option"      \<comment> \<open>the results of \<open>ecdsa.GenerateKey\<close>, in order\<close>
  randInt :: "int option"                \<comment> \<open>\<open>rand.Int(rand.Reader, 1<<128)\<close>\<close>
  createCertificate :: "Certificate \<Rightarrow> Certificate \<Rightarrow> 'k \<Rightarrow> 'k \<Rightarrow> string option"
     \<comment> \<open>\<open>x509.CreateCertificate(rand.Reader, template, parent, pub, priv)\<close>: the DER bytes\<close>
  mkdirAllOK :: "string \<Rightarrow> bool"
  openOK :: "string \<Rightarrow> bool"           \<comment> \<open>\<open>os.OpenFile\<close> for writing succeeds\<close>
  writeOK :: "nat \<Rightarrow> bool"             \<comment> \<open>the \<open>pem.Encode\<close> calls succeed, in order\<close>

text \<open>
  The file system is a map from paths to contents. A file can be read when it exists;
  directories and permissions are not in the model (the key file's mode 0600 neither).
\<close>

type_synonym FS = "string \<rightharpoonup> string"

definition fileExists :: "FS \<Rightarrow> string \<Rightarrow> bool" where
  "fileExists fs path \<longleftrightarrow> fs path \<noteq> None"

datatype CipherSuite =
    TLS_AES_128_GCM_SHA256
  | TLS_AES_256_GCM_SHA384
  | TLS_CHACHA20_POLY1305_SHA256
  | TLS_ECDHE_ECDSA_WITH_AES_128_GCM_SHA256
  | TLS_ECDHE_RSA_WITH_AES_128_GCM_SHA256
  | TLS_ECDHE_ECDSA_WITH_AES_256_GCM_SHA384
  | TLS_ECDHE_RSA_WITH_AES_256_GCM_SHA384
  | TLS_ECDHE_ECDSA_WITH_CHACHA20_POLY1305_SHA256
  | TLS_ECDHE_RSA_WITH_CHACHA20_POLY1305_SHA256

datatype CurveID = X25519 | CurveP256

record 'c tlsConfig =
  Certificates :: "'c list"
  MinVersion :: int
  CipherSuites :: "CipherSuite list"
  PreferServerCipherSuites :: bool
  CurvePreferences :: "CurveID list"

definition VersionTLS12 :: int where
  "VersionTLS12 = 771"   \<comment> \<open>\<open>0x0303\<close>\<close>

definition createTLSConfig :: "'c \<Rightarrow> 'c tlsConfig" where
  "createTLSConfig cert =
     \<lparr>Certificates = [cert],
      MinVersion = VersionTLS12,
      CipherSuites =
        [TLS_AES_128_GCM_SHA256, TLS_AES_256_GCM_SHA384, TLS_CHACHA20_POLY1305_SHA256,
         TLS_ECDHE_ECDSA_WITH_AES_128_GCM_SHA256, TLS_ECDHE_RSA_WITH_AES_128_GCM_SHA256,
         TLS_ECDHE_ECDSA_WITH_AES_256_GCM_SHA384, TLS_ECDHE_RSA_WITH_AES_256_GCM_SHA384,
         TLS_ECDHE_ECDSA_WITH_CHACHA20_POLY1305_SHA256,
         TLS_ECDHE_RSA_WITH_CHACHA20_POLY1305_SHA256],
      PreferServerCipherSuites = True,
      CurvePreferences = [X25519, CurveP256]\<rparr>"

definition LoadX509KeyPair :: "('c, 'k) CertLib \<Rightarrow> FS \<Rightarrow> string \<Rightarrow> string \<Rightarrow> 'c option" where
  \<comment> \<open>\<open>tls.LoadX509KeyPair\<close>: read both files, then \<open>tls.X509KeyPair\<close>\<close>
  "LoadX509KeyPair lib fs certPath keyPath =
     (case fs certPath of
        None \<Rightarrow> None
      | Some certPEM \<Rightarrow>
          (case fs keyPath of
             None \<Rightarrow> None
           | Some keyPEM \<Rightarrow> x509KeyPair lib certPEM keyPEM))"

definition loadCertificates :: "('c, 'k) CertLib \<Rightarrow> FS \<Rightarrow> string \<Rightarrow> string \<Rightarrow> string + 'c tlsConfig" where
  "loadCertificates lib fs certPath keyPath =
     (case LoadX509KeyPair lib fs certPath keyPath of
        None \<Rightarrow> Inl ''failed to load certificate''
      | Some cert \<Rightarrow> Inr (createTLSConfig cert))"

definition caTemplate :: "('c, 'k) CertLib \<Rightarrow> 'k ProvisionRun \<Rightarrow> Certificate" where
  "caTemplate lib run =
     \<lparr>SerialNumber = 1,
      Organization = [''HTTPSify Development CA''],
      CommonName = ''HTTPSify Root CA'',
      NotBefore = clock run 0 + (- Hour),
      NotAfter = addDate lib (clock run 1) 10 0 0,
      KeyUsage = KeyUsageCertSign OR KeyUsageCRLSign,
      ExtKeyUsages = [],
      BasicConstraintsValid = True,
      IsCA = True,
      MaxPathLen = 1,
      MaxPathLenZero = False,
      DNSNames = [],
      IPAddresses = []\<rparr>"

definition leafTemplate :: "('c, 'k) CertLib \<Rightarrow> 'k ProvisionRun \<Rightarrow> int \<Rightarrow> Certificate" where
  "leafTemplate lib run serialNumber =
     \<lparr>SerialNumber = serialNumber,
      Organization = [''HTTPSify''],
      CommonName = ''localhost'',
      NotBefore = clock run 2 + (- Hour),
      NotAfter = addDate lib (clock run 3) 1 0 0,
      KeyUsage = KeyUsageDigitalSignature OR KeyUsageKeyEncipherment,
      ExtKeyUsages = [ExtKeyUsageServerAuth],
      BasicConstraintsValid = True,
      IsCA = False,
      MaxPathLen = 0,
      MaxPathLenZero = False,
      DNSNames = [''localhost'', ''*.localhost'', ''localtest.me'', ''*.localtest.me''],
      IPAddresses = [''127.0.0.1'', ''::1'']\<rparr>"

definition openTrunc :: "FS \<Rightarrow> string \<Rightarrow> FS" where
  \<comment> \<open>\<open>os.OpenFile(path, O_WRONLY|O_CREATE|O_TRUNC, mode)\<close>, when it succeeds\<close>
  "openTrunc fs path = fs(path \<mapsto> [])"

definition appendFile :: "FS \<Rightarrow> string \<Rightarrow> string \<Rightarrow> FS" where
  \<comment> \<open>a write at the end of the open file\<close>
  "appendFile fs path text = fs(path \<mapsto> (case fs path of None \<Rightarrow> [] | Some old \<Rightarrow> old) @ text)"

definition writeFiles ::
  "('c, 'k) CertLib \<Rightarrow> 'k ProvisionRun \<Rightarrow> FS \<Rightarrow> string \<Rightarrow> string \<Rightarrow> string \<Rightarrow> string \<Rightarrow> 'k \<Rightarrow> string option \<times> FS" where
  \<comment> \<open>The part of \<open>generateSelfSignedCert\<close> from the first \<open>os.OpenFile\<close> to the last
      \<open>pem.Encode\<close>: \<open>Some msg\<close> is the error returned, with the file system as it is then.\<close>
  "writeFiles lib run fs certPath keyPath leafCertDER caCertDER leafKey =
     (if \<not> openOK run certPath then (Some ''failed to open cert file'', fs)
      else let fs1 = openTrunc fs certPath in
      if \<not> writeOK run 0 then (Some ''failed to write leaf certificate'', fs1)
      else let fs2 = appendFile fs1 certPath (pemEncode lib ''CERTIFICATE'' leafCertDER) in
      if \<not> writeOK run 1 then (Some ''failed to write CA certificate'', fs2)
      else let fs3 = appendFile fs2 certPath (pemEncode lib ''CERTIFICATE'' caCertDER) in
      if \<not> openOK run keyPath then (Some ''failed to open key file'', fs3)
      else let fs4 = openTrunc fs3 keyPath in
      (case marshalECPrivateKey lib leafKey of
         None \<Rightarrow> (Some ''failed to marshal leaf key'', fs4)
       | Some leafKeyDER \<Rightarrow>
           if \<not> writeOK run 2 then (Some ''failed to write leaf key'', fs4)
           else let fs5 = appendFile fs4 keyPath (pemEncode lib ''EC PRIVATE KEY'' leafKeyDER);
                    caCertPath = pathJoin lib (pathDir lib certPath) ''ca.pem'' in
           if \<not> openOK run caCertPath then (Some ''failed to open CA cert file'', fs5)
           else let fs6 = openTrunc fs5 caCertPath in
           if \<not> writeOK run 3 then (Some ''failed to write CA certificate'', fs6)
           else (None, appendFile fs6 caCertPath (pemEncode lib ''CERTIFICATE'' caCertDER))))"

definition generateSelfSignedCert ::
  "('c, 'k) CertLib \<Rightarrow> 'k ProvisionRun \<Rightarrow> FS \<Rightarrow> string \<Rightarrow> string \<Rightarrow> (string + 'c tlsConfig) \<times> FS" where
  "generateSelfSignedCert lib run fs certPath keyPath =
     (if \<not> mkdirAllOK run (pathDir lib certPath) then (Inl ''failed to create cert directory'', fs)
      else case generateKey run 0 of
        None \<Rightarrow> (Inl ''failed to generate CA key'', fs)
      | Some caKey \<Rightarrow>
      (case createCertificate run (caTemplate lib run) (caTemplate lib run) caKey caKey of
        None \<Rightarrow> (Inl ''failed to create CA certificate'', fs)
      | Some caCertDER \<Rightarrow>
      (case parseCertificate lib caCertDER of
        None \<Rightarrow> (Inl ''failed to parse CA certificate'', fs)
      | Some caCert \<Rightarrow>
      (case generateKey run 1 of
        None \<Rightarrow> (Inl ''failed to generate leaf key'', fs)
      | Some leafKey \<Rightarrow>
      (case randInt run of
        None \<Rightarrow> (Inl ''failed to generate serial number'', fs)
      | Some serialNumber \<Rightarrow>
      (case createCertificate run (leafTemplate lib run serialNumber) caCert leafKey caKey of
        None \<Rightarrow> (Inl ''failed to create leaf certificate'', fs)
      | Some leafCertDER \<Rightarrow>
      (case writeFiles lib run fs certPath keyPath leafCertDER caCertDER leafKey of
        (Some msg, fs') \<Rightarrow> (Inl msg, fs')
      | (None, fs') \<Rightarrow>
      (case LoadX509KeyPair lib fs' certPath keyPath of
        None \<Rightarrow> (Inl ''failed to load generated certificate'', fs')
      | Some cert \<Rightarrow> (Inr (createTLSConfig cert), fs')))))))))"

definition LoadOrGenerateCert ::
  "('c, 'k) CertLib \<Rightarrow> 'k ProvisionRun \<Rightarrow> FS \<Rightarrow> tlsutilConfig \<Rightarrow> (string + 'c tlsConfig) \<times> FS" where
  "LoadOrGenerateCert lib run fs c =
     (if \<not> tlsSelfSigned c then (loadCertificates lib fs (tlsCertPath c) (tlsKeyPath c), fs)
      else
        (let certExists = fileExists fs (tlsCertPath c);
             keyExists = fileExists fs (tlsKeyPath c)
         in if certExists \<and> keyExists then
              (case loadCertificates lib fs (tlsCertPath c) (tlsKeyPath c) of
                 Inr tlsConfig \<Rightarrow> (Inr tlsConfig, fs)
               | Inl e \<Rightarrow> generateSelfSignedCert lib run fs (tlsCertPath c) (tlsKeyPath c))
            else generateSelfSignedCert lib run fs (tlsCertPath c) (tlsKeyPath c)))"

text \<open>
  The meaning of the path-length constraint (RFC 5280, section 4.2.1.9, as
  \<open>crypto/x509\<close> encodes and checks it): a CA certificate with valid basic constraints
  carries the constraint \<open>MaxPathLen\<close>, unless that is negative or is zero without
  \<open>MaxPathLenZero\<close>; a chain is refused when more intermediate CA certificates than the
  constraint stand between the CA and the leaf.
\<close>

definition pathLenConstraint :: "Certificate \<Rightarrow> nat option" where
  "pathLenConstraint c =
     (if BasicConstraintsValid c \<and> IsCA c \<and> 0 \<le> MaxPathLen c \<and>
         \<not> (MaxPathLen c = 0 \<and> \<not> MaxPathLenZero c)
      then Some (nat (MaxPathLen c)) else None)"

definition permitsIntermediates :: "Certificate \<Rightarrow> nat \<Rightarrow> bool" where
  \<comment> \<open>\<open>k\<close> intermediate CA certificates may stand between this CA and a leaf\<close>
  "permitsIntermediates c k = (case pathLenConstraint c of None \<Rightarrow> True | Some m \<Rightarrow> k \<le> m)"

definition hasKeyUsage :: "Certificate \<Rightarrow> int \<Rightarrow> bool" where
  "hasKeyUsage c flag \<longleftrightarrow> KeyUsage c AND flag \<noteq> 0"

section \<open>Properties of the admission policy\<close>

lemma denyLoop_iff: "denyLoop prs port \<longleftrightarrow> (\<exists>pr \<in> set prs. Contains pr port)"
  by (induction prs) auto

text \<open>
  Claim C2. For every port and every policy (a list of deny ranges and one allow range),
  \<open>IsPortAllowed\<close> returns false whenever the port lies in some deny range, also when the
  port lies in the allow range; when the port is in no deny range it returns true exactly
  when the port is within the inclusive bounds of the allow range; and a port outside the
  allow range is never admitted. The statement holds for every integer, in particular for
  every port in 1..65535.
\<close>

theorem IsPortAllowed_policy:
  "((\<exists>pr \<in> set (DenyPorts c). Contains pr p) \<longrightarrow> \<not> IsPortAllowed c p)
   \<and> ((\<forall>pr \<in> set (DenyPorts c). \<not> Contains pr p) \<longrightarrow>
        (IsPortAllowed c p \<longleftrightarrow> Start (AllowRange c) \<le> p \<and> p \<le> End (AllowRange c)))
   \<and> (\<not> (Start (AllowRange c) \<le> p \<and> p \<le> End (AllowRange c)) \<longrightarrow> \<not> IsPortAllowed c p)"
  by (auto simp: IsPortAllowed_def denyLoop_iff Contains_def)

theorem IsPortAllowed_policy_witness:
  "\<not> IsPortAllowed
       \<lparr>ListenAddr = '':443'', CertPath = ''./cert/localhost.pem'',
        KeyPath = ''./cert/localhost-key.pem'', SelfSigned = True,
        DenyPorts = [\<lparr>Start = 22, End = 22\<rparr>, \<lparr>Start = 5000, End = 5999\<rparr>],
        AllowRange = \<lparr>Start = 1024, End = 65535\<rparr>, Verbose = False, AccessLog = True,
        ReadHeaderTimeout = 10, IdleTimeout = 120, WriteTimeout = 30, DialTimeout = 10\<rparr> 5900
   \<and> IsPortAllowed
       \<lparr>ListenAddr = '':443'', CertPath = ''./cert/localhost.pem'',
        KeyPath = ''./cert/localhost-key.pem'', SelfSigned = True,
        DenyPorts = [\<lparr>Start = 22, End = 22\<rparr>, \<lparr>Start = 5000, End = 5999\<rparr>],
        AllowRange = \<lparr>Start = 1024, End = 65535\<rparr>, Verbose = False, AccessLog = True,
        ReadHeaderTimeout = 10, IdleTimeout = 120, WriteTimeout = 30, DialTimeout = 10\<rparr> 8000
   \<and> \<not> IsPortAllowed
       \<lparr>ListenAddr = '':443'', CertPath = ''./cert/localhost.pem'',
        KeyPath = ''./cert/localhost-key.pem'', SelfSigned = True,
        DenyPorts = [\<lparr>Start = 22, End = 22\<rparr>, \<lparr>Start = 5000, End = 5999\<rparr>],
        AllowRange = \<lparr>Start = 1024, End = 65535\<rparr>, Verbose = False, AccessLog = True,
        ReadHeaderTimeout = 10, IdleTimeout = 120, WriteTimeout = 30, DialTimeout = 10\<rparr> 80"
  using IsPortAllowed_policy [where p = 5900 and c = "\<lparr>ListenAddr = '':443'', CertPath = ''./cert/localhost.pem'',
        KeyPath = ''./cert/localhost-key.pem'', SelfSigned = True,
        DenyPorts = [\<lparr>Start = 22, End = 22\<rparr>, \<lparr>Start = 5000, End = 5999\<rparr>],
        AllowRange = \<lparr>Start = 1024, End = 65535\<rparr>, Verbose = False, AccessLog = True,
        ReadHeaderTimeout = 10, IdleTimeout = 120, WriteTimeout = 30, DialTimeout = 10\<rparr>"]
    IsPortAllowed_policy [where p = 8000 and c = "\<lparr>ListenAddr = '':443'', CertPath = ''./cert/localhost.pem'',
        KeyPath = ''./cert/localhost-key.pem'', SelfSigned = True,
        DenyPorts = [\<lparr>Start = 22, End = 22\<rparr>, \<lparr>Start = 5000, End = 5999\<rparr>],
        AllowRange = \<lparr>Start = 1024, End = 65535\<rparr>, Verbose = False, AccessLog = True,
        ReadHeaderTimeout = 10, IdleTimeout = 120, WriteTimeout = 30, DialTimeout = 10\<rparr>"]
    IsPortAllowed_policy [where p = 80 and c = "\<lparr>ListenAddr = '':443'', CertPath = ''./cert/localhost.pem'',
        KeyPath = ''./cert/localhost-key.pem'', SelfSigned = True,
        DenyPorts = [\<lparr>Start = 22, End = 22\<rparr>, \<lparr>Start = 5000, End = 5999\<rparr>],
        AllowRange = \<lparr>Start = 1024, End = 65535\<rparr>, Verbose = False, AccessLog = True,
        ReadHeaderTimeout = 10, IdleTimeout = 120, WriteTimeout = 30, DialTimeout = 10\<rparr>"]
  by (simp add: Contains_def)

section \<open>Properties of host resolution\<close>

lemma digitRests_sound:
  "r \<in> set (digitRests s) \<Longrightarrow> \<exists>ds. ds \<noteq> [] \<and> list_all isDigit ds \<and> s = ds @ r"
proof (induction s)
  case Nil
  then show ?case by simp
next
  case (Cons c cs)
  show ?case
  proof (cases "isDigit c")
    case False
    with Cons.prems show ?thesis by simp
  next
    case True
    with Cons.prems have "r \<in> set (digitRests cs) \<or> r = cs" by auto
    then show ?thesis
    proof
      assume "r = cs"
      with True have "[c] \<noteq> [] \<and> list_all isDigit [c] \<and> c # cs = [c] @ r" by simp
      then show ?thesis by blast
    next
      assume "r \<in> set (digitRests cs)"
      from Cons.IH [OF this] obtain ds where
        ds: "ds \<noteq> []" "list_all isDigit ds" "cs = ds @ r" by blast
      with True have "c # ds \<noteq> [] \<and> list_all isDigit (c # ds) \<and> c # cs = (c # ds) @ r" by simp
      then show ?thesis by blast
    qed
  qed
qed

lemma digitRests_complete:
  "ds \<noteq> [] \<Longrightarrow> list_all isDigit ds \<Longrightarrow> r \<in> set (digitRests (ds @ r))"
proof (induction ds)
  case Nil
  then show ?case by simp
next
  case (Cons c ds)
  then show ?case by (cases ds) auto
qed

lemma digitRests_Nil_iff: "[] \<in> set (digitRests s) \<longleftrightarrow> s \<noteq> [] \<and> list_all isDigit s"
  using digitRests_sound [of "[]" s] digitRests_complete [of s "[]"] by auto

lemma rests_Lit_iff: "x \<in> set (rests (Lit l) s) \<longleftrightarrow> s = l @ x"
  by (auto simp: prefix_def)

lemma rests_Seq_iff: "x \<in> set (rests (Seq a b) s) \<longleftrightarrow> (\<exists>y \<in> set (rests a s). x \<in> set (rests b y))"
  by auto



lemma optPort_iff: "[] \<in> set (rests (Opt (Seq (Lit '':'') Digits)) z) \<longleftrightarrow> portSuffix z"
proof -
  have "[] \<in> set (rests (Opt (Seq (Lit '':'') Digits)) z)
        \<longleftrightarrow> (\<exists>y. z = '':'' @ y \<and> [] \<in> set (digitRests y)) \<or> z = []"
    by (auto simp: prefix_def)
  then show ?thesis
    by (auto simp: portSuffix_def digitRests_Nil_iff)
qed

lemma hostPatternTail_iff:
  "[] \<in> set (rests hostPatternTail r) \<longleftrightarrow>
     (\<exists>p. portSuffix p \<and> (r = ''.localhost'' @ p \<or> r = ''.localtest.me'' @ p))"
proof -
  let ?O = "Opt (Seq (Lit '':'') Digits)"
  let ?A = "Alt (Lit ''localhost'') (Lit ''localtest.me'')"
  have A: "\<And>x y. x \<in> set (rests ?A y) \<longleftrightarrow> y = ''localhost'' @ x \<or> y = ''localtest.me'' @ x"
    by (auto simp: prefix_def)
  have "[] \<in> set (rests hostPatternTail r)
        \<longleftrightarrow> (\<exists>y \<in> set (rests (Lit ''.'') r). \<exists>x \<in> set (rests ?A y). [] \<in> set (rests ?O x))"
    unfolding hostPatternTail_def rests_Seq_iff ..
  also have "\<dots> \<longleftrightarrow> (\<exists>y. r = ''.'' @ y \<and> (\<exists>x. (y = ''localhost'' @ x \<or> y = ''localtest.me'' @ x) \<and> portSuffix x))"
    unfolding Bex_def rests_Lit_iff A optPort_iff ..
  also have "\<dots> \<longleftrightarrow> (\<exists>p. portSuffix p \<and> (r = ''.localhost'' @ p \<or> r = ''.localtest.me'' @ p))"
    by auto
  finally show ?thesis .
qed


lemma dot_not_digit: "\<not> isDigit CHR ''.''"
  by (simp add: isDigit_def)

lemma digit_run_unique:
  assumes "list_all isDigit a" "list_all isDigit b" "a @ CHR ''.'' # x = b @ CHR ''.'' # y"
  shows "a = b \<and> x = y"
proof -
  have "takeWhile isDigit (a @ CHR ''.'' # x) = a"
    using assms(1) by (simp add: list_all_iff takeWhile_append2 dot_not_digit)
  moreover have "takeWhile isDigit (b @ CHR ''.'' # y) = b"
    using assms(2) by (simp add: list_all_iff takeWhile_append2 dot_not_digit)
  ultimately have "a = b" using assms(3) by simp
  with assms(3) show ?thesis by simp
qed

lemma FindStringSubmatch1_iff: "FindStringSubmatch1 h = Some ds \<longleftrightarrow> hostGrammar ds h"
proof
  let ?P = "\<lambda>r. [] \<in> set (rests hostPatternTail r)"
  assume "FindStringSubmatch1 h = Some ds"
  then obtain r rs where f: "filter ?P (digitRests h) = r # rs"
    and ds: "ds = take (length h - length r) h"
    by (auto simp: FindStringSubmatch1_def hostPatternGroup1_def split: list.splits)
  from f have "r \<in> set (filter ?P (digitRests h))" by simp
  then have r: "r \<in> set (digitRests h)" and P: "?P r" by auto
  from digitRests_sound [OF r] obtain ds' where
    d: "ds' \<noteq> []" "list_all isDigit ds'" "h = ds' @ r" by blast
  with ds have "ds = ds'" by simp
  with d P show "hostGrammar ds h"
    unfolding hostGrammar_def hostPatternTail_iff by auto
next
  let ?P = "\<lambda>r. [] \<in> set (rests hostPatternTail r)"
  assume "hostGrammar ds h"
  then obtain p where d: "ds \<noteq> []" "list_all isDigit ds" and p: "portSuffix p"
    and h: "h = ds @ ''.localhost'' @ p \<or> h = ds @ ''.localtest.me'' @ p"
    unfolding hostGrammar_def by blast
  define r where "r = drop (length ds) h"
  from h have hr: "h = ds @ r" and rdot: "\<exists>t. r = CHR ''.'' # t"
    unfolding r_def by auto
  from h p have Pr: "?P r" unfolding hostPatternTail_iff r_def by auto
  from digitRests_complete [OF d] hr have "r \<in> set (digitRests h)" by simp
  with Pr have "r \<in> set (filter ?P (digitRests h))" by simp
  then obtain r' rs where f: "filter ?P (digitRests h) = r' # rs"
    by (cases "filter ?P (digitRests h)") auto
  then have "r' \<in> set (filter ?P (digitRests h))" by simp
  then have r': "r' \<in> set (digitRests h)" and P': "?P r'" by auto
  from digitRests_sound [OF r'] obtain ds' where
    d': "list_all isDigit ds'" "h = ds' @ r'" by blast
  from P' have "\<exists>t. r' = CHR ''.'' # t" unfolding hostPatternTail_iff by auto
  with rdot hr d' d(2) have "ds' = ds" using digit_run_unique by metis
  with d' have "take (length h - length r') h = ds" by simp
  with f show "FindStringSubmatch1 h = Some ds"
    by (simp add: FindStringSubmatch1_def hostPatternGroup1_def)
qed

lemma FindStringSubmatch1_None_iff: "FindStringSubmatch1 h = None \<longleftrightarrow> (\<forall>ds. \<not> hostGrammar ds h)"
  using FindStringSubmatch1_iff [of h] by (cases "FindStringSubmatch1 h") auto

lemma decimal_digits: "list_all isDigit cs \<Longrightarrow> decimal cs n = Some (n * 10 ^ length cs + decimalValue cs)"
  by (induction cs arbitrary: n) (auto simp: algebra_simps)

lemma Atoi_digits:
  assumes "ds \<noteq> []" "list_all isDigit ds"
  shows "Atoi ds = (if decimalValue ds > maxInt then None else Some (int (decimalValue ds)))"
proof -
  from assms obtain c cs where ds: "ds = c # cs" and c: "isDigit c" by (cases ds) auto
  from c have "c \<noteq> CHR ''-''" "c \<noteq> CHR ''+''" by (auto simp: isDigit_def)
  moreover have "decimal ds 0 = Some (decimalValue ds)" using decimal_digits [OF assms(2), of 0] by simp
  ultimately show ?thesis by (simp add: Atoi_def ds)
qed

lemma parseHost_grammar:
  assumes "hostGrammar ds h"
  shows "parseHost h =
     (if decimalValue ds > maxInt then Inl (''invalid port number: '' @ ds)
      else if decimalValue ds < 1 \<or> decimalValue ds > 65535
        then Inl (''port '' @ Itoa (int (decimalValue ds)) @ '' out of valid range (1-65535)'')
      else Inr (int (decimalValue ds)))"
proof -
  from assms have f: "FindStringSubmatch1 h = Some ds" by (simp add: FindStringSubmatch1_iff)
  from assms have "ds \<noteq> []" "list_all isDigit ds" by (auto simp: hostGrammar_def)
  from Atoi_digits [OF this] f show ?thesis
    by (auto simp: parseHost_def ValidatePort_def)
qed

lemma parseHost_no_grammar:
  assumes "\<forall>ds. \<not> hostGrammar ds h"
  shows "parseHost h = Inl (''invalid host format: '' @ h)"
  using assms by (simp add: parseHost_def FindStringSubmatch1_None_iff [symmetric])

lemma natDigits_small: "n < 10 \<Longrightarrow> natDigits n = [''0123456789'' ! n]"
  by (simp add: natDigits.simps)

lemma natDigits_big: "\<not> n < 10 \<Longrightarrow> natDigits n = natDigits (n div 10) @ [''0123456789'' ! (n mod 10)]"
  by (subst natDigits.simps) simp

lemma digit_table:
  assumes "k < 10"
  shows "isDigit (''0123456789'' ! k) \<and> digitVal (''0123456789'' ! k) = k"
proof -
  from assms have "k = 0 \<or> k = 1 \<or> k = 2 \<or> k = 3 \<or> k = 4 \<or> k = 5 \<or> k = 6 \<or> k = 7 \<or> k = 8 \<or> k = 9"
    by arith
  then show ?thesis
    by (elim disjE) (simp_all add: isDigit_def digitVal_def)
qed

lemma decimalValue_snoc: "decimalValue (cs @ [d]) = decimalValue cs * 10 + digitVal d"
  by (induction cs) (auto simp: algebra_simps)

lemma natDigits_props:
  "natDigits n \<noteq> [] \<and> list_all isDigit (natDigits n) \<and> decimalValue (natDigits n) = n"
proof (induction n rule: natDigits.induct)
  case (1 n)
  show ?case
  proof (cases "n < 10")
    case True
    then show ?thesis using digit_table [of n] by (simp add: natDigits_small)
  next
    case False
    have "n mod 10 < 10" by simp
    from digit_table [OF this] "1.IH" [OF False] False show ?thesis
      by (simp add: natDigits_big decimalValue_snoc)
  qed
qed

lemma portSuffix_no_dot:
  assumes "portSuffix p"
  shows "CHR ''.'' \<notin> set p"
proof
  assume d: "CHR ''.'' \<in> set p"
  with assms obtain ps where "p = CHR '':'' # ps" "list_all isDigit ps"
    by (auto simp: portSuffix_def)
  with d have "isDigit CHR ''.''" by (auto simp: list_all_iff)
  then show False by (simp add: dot_not_digit)
qed

lemma after_last_dot:
  "CHR ''.'' \<notin> set y \<Longrightarrow> takeWhile (\<lambda>c. c \<noteq> CHR ''.'') (rev (x @ CHR ''.'' # y)) = rev y"
  by (simp, subst takeWhile_append2) auto

lemma last_label_localhost:
  assumes "portSuffix p"
  shows "takeWhile (\<lambda>c. c \<noteq> CHR ''.'') (rev (x @ ''.localhost'' @ p)) = rev (''localhost'' @ p)"
proof -
  have "CHR ''.'' \<notin> set (''localhost'' @ p)" using portSuffix_no_dot [OF assms] by simp
  from after_last_dot [OF this, of x] show ?thesis by simp
qed

lemma last_label_localtest:
  assumes "portSuffix p"
  shows "takeWhile (\<lambda>c. c \<noteq> CHR ''.'') (rev (x @ ''.localtest.me'' @ p)) = rev (''me'' @ p)"
proof -
  have "CHR ''.'' \<notin> set (''me'' @ p)" using portSuffix_no_dot [OF assms] by simp
  from after_last_dot [OF this, of "x @ ''.localtest''"] show ?thesis by simp
qed

lemma grammar_label_localhost:
  assumes "portSuffix q" "hostGrammar ds (l @ ''.localhost'' @ q)"
  shows "l = ds"
proof -
  from assms(2) obtain p where p: "portSuffix p"
    and h: "l @ ''.localhost'' @ q = ds @ ''.localhost'' @ p \<or> l @ ''.localhost'' @ q = ds @ ''.localtest.me'' @ p"
    unfolding hostGrammar_def by blast
  from h show ?thesis
  proof
    assume e: "l @ ''.localhost'' @ q = ds @ ''.localhost'' @ p"
    then have "rev (''localhost'' @ q) = rev (''localhost'' @ p)"
      using last_label_localhost [OF assms(1), of l] last_label_localhost [OF p, of ds] by simp
    then have "q = p" by simp
    with e show ?thesis by simp
  next
    assume e: "l @ ''.localhost'' @ q = ds @ ''.localtest.me'' @ p"
    then have "rev (''localhost'' @ q) = rev (''me'' @ p)"
      using last_label_localhost [OF assms(1), of l] last_label_localtest [OF p, of ds] by simp
    then have "''localhost'' @ q = ''me'' @ p" using rev_is_rev_conv by blast
    then show ?thesis by simp
  qed
qed

lemma grammar_label_localtest:
  assumes "portSuffix q" "hostGrammar ds (l @ ''.localtest.me'' @ q)"
  shows "l = ds"
proof -
  from assms(2) obtain p where p: "portSuffix p"
    and h: "l @ ''.localtest.me'' @ q = ds @ ''.localhost'' @ p \<or> l @ ''.localtest.me'' @ q = ds @ ''.localtest.me'' @ p"
    unfolding hostGrammar_def by blast
  from h show ?thesis
  proof
    assume e: "l @ ''.localtest.me'' @ q = ds @ ''.localtest.me'' @ p"
    then have "rev (''me'' @ q) = rev (''me'' @ p)"
      using last_label_localtest [OF assms(1), of l] last_label_localtest [OF p, of ds] by simp
    then have "q = p" by simp
    with e show ?thesis by simp
  next
    assume e: "l @ ''.localtest.me'' @ q = ds @ ''.localhost'' @ p"
    then have "rev (''me'' @ q) = rev (''localhost'' @ p)"
      using last_label_localtest [OF assms(1), of l] last_label_localhost [OF p, of ds] by simp
    then have "''me'' @ q = ''localhost'' @ p" using rev_is_rev_conv by blast
    then show ?thesis by simp
  qed
qed

lemma hostGrammarI:
  "ds \<noteq> [] \<Longrightarrow> list_all isDigit ds \<Longrightarrow> portSuffix p \<Longrightarrow>
   hostGrammar ds (ds @ ''.localhost'' @ p) \<and> hostGrammar ds (ds @ ''.localtest.me'' @ p)"
  unfolding hostGrammar_def by blast

lemma hostGrammar_unique: "hostGrammar ds h \<Longrightarrow> hostGrammar ds' h \<Longrightarrow> ds' = ds"
proof -
  assume "hostGrammar ds h" "hostGrammar ds' h"
  then have "FindStringSubmatch1 h = Some ds" "FindStringSubmatch1 h = Some ds'"
    by (simp_all add: FindStringSubmatch1_iff)
  then show "ds' = ds" by simp
qed

lemma parseHost_port:
  assumes "1 \<le> n" "n \<le> 65535" "portSuffix p"
  shows "parseHost (Itoa n @ ''.localhost'' @ p) = Inr n"
    and "parseHost (Itoa n @ ''.localtest.me'' @ p) = Inr n"
proof -
  from assms have I: "Itoa n = natDigits (nat n)" by (simp add: Itoa_def)
  have g1: "hostGrammar (natDigits (nat n)) (natDigits (nat n) @ ''.localhost'' @ p)"
    and g2: "hostGrammar (natDigits (nat n)) (natDigits (nat n) @ ''.localtest.me'' @ p)"
    using natDigits_props [of "nat n"] assms(3) hostGrammarI by blast+
  have d: "decimalValue (natDigits (nat n)) = nat n"
    using natDigits_props [of "nat n"] by simp
  from assms have v: "\<not> nat n > maxInt" "\<not> (nat n < 1 \<or> nat n > 65535)" "int (nat n) = n"
    by (auto simp: maxInt_def)
  show "parseHost (Itoa n @ ''.localhost'' @ p) = Inr n"
    unfolding I parseHost_grammar [OF g1] d using v by simp
  show "parseHost (Itoa n @ ''.localtest.me'' @ p) = Inr n"
    unfolding I parseHost_grammar [OF g2] d using v by simp
qed

lemma parseHost_isl_iff:
  "isl (parseHost h) \<longleftrightarrow> \<not> (\<exists>ds. hostGrammar ds h \<and> 1 \<le> decimalValue ds \<and> decimalValue ds \<le> 65535)"
proof (cases "\<exists>ds. hostGrammar ds h")
  case False
  then show ?thesis using parseHost_no_grammar [of h] by auto
next
  case True
  then obtain ds where g: "hostGrammar ds h" by blast
  have "isl (parseHost h) \<longleftrightarrow> \<not> (1 \<le> decimalValue ds \<and> decimalValue ds \<le> 65535)"
    unfolding parseHost_grammar [OF g] by (auto simp: maxInt_def)
  also have "\<dots> \<longleftrightarrow> \<not> (\<exists>ds. hostGrammar ds h \<and> 1 \<le> decimalValue ds \<and> decimalValue ds \<le> 65535)"
    using g hostGrammar_unique [OF g] by blast
  finally show ?thesis .
qed

lemma parseHost_bad_label:
  assumes "\<not> (l \<noteq> [] \<and> list_all isDigit l)" "portSuffix q"
  shows "isl (parseHost (l @ ''.localhost'' @ q))" and "isl (parseHost (l @ ''.localtest.me'' @ q))"
proof -
  have "\<not> hostGrammar ds (l @ ''.localhost'' @ q)" for ds
  proof
    assume g: "hostGrammar ds (l @ ''.localhost'' @ q)"
    from grammar_label_localhost [OF assms(2) g] g assms(1) show False
      by (simp add: hostGrammar_def)
  qed
  then show "isl (parseHost (l @ ''.localhost'' @ q))" by (simp add: parseHost_isl_iff)
  have "\<not> hostGrammar ds (l @ ''.localtest.me'' @ q)" for ds
  proof
    assume g: "hostGrammar ds (l @ ''.localtest.me'' @ q)"
    from grammar_label_localtest [OF assms(2) g] g assms(1) show False
      by (simp add: hostGrammar_def)
  qed
  then show "isl (parseHost (l @ ''.localtest.me'' @ q))" by (simp add: parseHost_isl_iff)
qed

lemmas parseHost_eval =
  parseHost_def FindStringSubmatch1_def hostPatternGroup1_def hostPatternTail_def
  isDigit_def digitVal_def Atoi_def maxInt_def ValidatePort_def Itoa_def
  natDigits_small natDigits_big

lemma parseHost_examples:
  "parseHost ''0.localhost'' = Inl ''port 0 out of valid range (1-65535)''"
  "parseHost ''65536.localhost'' = Inl ''port 65536 out of valid range (1-65535)''"
  "parseHost ''app.8000.localhost'' = Inl ''invalid host format: app.8000.localhost''"
  "parseHost ''8000.localhost'' = Inr 8000"
  "parseHost ''08000.localhost'' = Inr 8000"
  "parseHost ''0000.localhost'' = Inl ''port 0 out of valid range (1-65535)''"
  "parseHost ''example.com'' = Inl ''invalid host format: example.com''"
  by (simp_all add: parseHost_eval)

lemma Itoa_examples: "Itoa 8000 = ''8000''" "Itoa 22 = ''22''" "Itoa 0 = ''0''"
  by (simp_all add: Itoa_def natDigits_small natDigits_big)

lemma portSuffix_examples: "portSuffix []" "portSuffix '':443''"
  by (simp_all add: portSuffix_def isDigit_def)

lemma parseHost_Inr_grammar:
  assumes "parseHost h = Inr m"
  shows "\<exists>ds. hostGrammar ds h \<and> m = int (decimalValue ds) \<and> 1 \<le> m \<and> m \<le> 65535"
proof -
  from assms have "\<not> isl (parseHost h)" by simp
  then obtain ds where g: "hostGrammar ds h" and r: "1 \<le> decimalValue ds" "decimalValue ds \<le> 65535"
    unfolding parseHost_isl_iff by blast
  from r have "parseHost h = Inr (int (decimalValue ds))"
    unfolding parseHost_grammar [OF g] by (simp add: maxInt_def)
  with assms g r show ?thesis by auto
qed

text \<open>
  Claim C1. Host resolution is total and exact over the anchored grammar. For every
  integer \<open>n\<close> in 1..65535, \<open>parseHost\<close> applied to \<open>n.localhost\<close> and to
  \<open>n.localtest.me\<close>, with or without a port suffix \<open>:<digits>\<close>, succeeds and returns
  \<open>n\<close>. It fails for \<open>0.localhost\<close>, for \<open>65536.localhost\<close>, for every host whose label
  before the suffix is not a non-empty run of digits, for every multi-label host such as
  \<open>app.8000.localhost\<close>, and for every host outside the grammar (so also one without the
  \<open>.localhost\<close> / \<open>.localtest.me\<close> suffix); and whenever it succeeds the host is in the
  grammar and the result is the decimal value of its digit run, within 1..65535.
\<close>

theorem parseHost_total_exact:
  "(1 \<le> n \<and> n \<le> 65535 \<and> portSuffix p \<longrightarrow>
      parseHost (Itoa n @ ''.localhost'' @ p) = Inr n \<and>
      parseHost (Itoa n @ ''.localtest.me'' @ p) = Inr n)
   \<and> isl (parseHost ''0.localhost'') \<and> isl (parseHost ''65536.localhost'')
   \<and> isl (parseHost ''app.8000.localhost'')
   \<and> (\<not> (l \<noteq> [] \<and> list_all isDigit l) \<and> portSuffix q \<longrightarrow>
        isl (parseHost (l @ ''.localhost'' @ q)) \<and> isl (parseHost (l @ ''.localtest.me'' @ q)))
   \<and> (portSuffix q \<longrightarrow>
        isl (parseHost (a @ ''.'' @ b @ ''.localhost'' @ q)) \<and>
        isl (parseHost (a @ ''.'' @ b @ ''.localtest.me'' @ q)))
   \<and> ((\<forall>ds. \<not> hostGrammar ds h) \<longrightarrow> parseHost h = Inl (''invalid host format: '' @ h))
   \<and> (parseHost h = Inr m \<longrightarrow>
        (\<exists>ds. hostGrammar ds h \<and> m = int (decimalValue ds) \<and> 1 \<le> m \<and> m \<le> 65535))"
proof -
  have multi: "\<not> ((a @ ''.'' @ b) \<noteq> [] \<and> list_all isDigit (a @ ''.'' @ b))"
    by (simp add: dot_not_digit)
  have "portSuffix q \<longrightarrow>
        isl (parseHost (a @ ''.'' @ b @ ''.localhost'' @ q)) \<and>
        isl (parseHost (a @ ''.'' @ b @ ''.localtest.me'' @ q))"
    using parseHost_bad_label [OF multi, of q] by simp
  then show ?thesis
    using parseHost_port [of n p] parseHost_bad_label [of l q] parseHost_no_grammar [of h]
      parseHost_Inr_grammar [of h m]
    by (simp add: parseHost_examples)
qed

theorem parseHost_total_exact_witness:
  "parseHost ''8000.localhost:443'' = Inr 8000
   \<and> parseHost ''8000.localtest.me:443'' = Inr 8000
   \<and> isl (parseHost ''abc.localhost'')
   \<and> isl (parseHost ''abc.localtest.me'')
   \<and> isl (parseHost ''app.8000.localhost:443'')
   \<and> parseHost ''example.com'' = Inl ''invalid host format: example.com''
   \<and> (\<exists>ds. hostGrammar ds ''8000.localhost'' \<and> (8000::int) = int (decimalValue ds))"
proof -
  have g: "\<forall>ds. \<not> hostGrammar ds ''example.com''"
    unfolding FindStringSubmatch1_None_iff [symmetric]
    by (simp add: FindStringSubmatch1_def hostPatternGroup1_def isDigit_def)
  have l: "\<not> (''abc'' \<noteq> [] \<and> list_all isDigit ''abc'')" by (simp add: isDigit_def)
  show ?thesis
    using parseHost_total_exact [where n = 8000 and p = "'':443''" and l = "''abc''" and q = "[]"
        and a = "''app''" and b = "''8000''" and h = "''example.com''" and m = 0]
      parseHost_total_exact [where n = 8000 and p = "'':443''" and l = "''abc''" and q = "'':443''"
        and a = "''app''" and b = "''8000''" and h = "''8000.localhost''" and m = 8000]
      g l
    by (simp add: Itoa_examples portSuffix_examples parseHost_examples)
qed

lemma decimalValue_zeros: "decimalValue (replicate k CHR ''0'' @ ds) = decimalValue ds"
  by (induction k) (simp_all add: digitVal_def)

lemma zeros_digits: "list_all isDigit (replicate k CHR ''0'')"
  by (induction k) (simp_all add: isDigit_def)

text \<open>
  Claim C10. A digit run with leading zeros is accepted and parsed as its decimal value:
  any number of zeros in front of a port \<open>n\<close> in 1..65535 still resolves to \<open>n\<close>
  (\<open>08000.localhost\<close> gives 8000), and more generally every host of the grammar whose
  digit run has a decimal value in 1..65535 resolves to that value; a digit run of zeros
  only (\<open>0000.localhost\<close>) fails.
\<close>

theorem parseHost_leading_zeros:
  "(1 \<le> n \<and> n \<le> 65535 \<longrightarrow> parseHost (replicate k CHR ''0'' @ Itoa n @ ''.localhost'') = Inr n)
   \<and> (hostGrammar ds h \<and> 1 \<le> decimalValue ds \<and> decimalValue ds \<le> 65535 \<longrightarrow>
        parseHost h = Inr (int (decimalValue ds)))
   \<and> (hostGrammar ds h \<and> decimalValue ds = 0 \<longrightarrow> isl (parseHost h))
   \<and> parseHost ''08000.localhost'' = Inr 8000
   \<and> isl (parseHost (replicate j CHR ''0'' @ ''.localhost''))
   \<and> isl (parseHost ''0000.localhost'')"
proof -
  have A: "parseHost (replicate k CHR ''0'' @ Itoa n @ ''.localhost'') = Inr n"
    if n: "1 \<le> n" "n \<le> 65535"
  proof -
    let ?ds = "replicate k CHR ''0'' @ natDigits (nat n)"
    from n have I: "Itoa n = natDigits (nat n)" by (simp add: Itoa_def)
    have "?ds \<noteq> []" "list_all isDigit ?ds"
      using natDigits_props [of "nat n"] zeros_digits [of k] by simp_all
    from hostGrammarI [OF this portSuffix_examples(1)]
    have g: "hostGrammar ?ds (replicate k CHR ''0'' @ Itoa n @ ''.localhost'')"
      by (simp add: I)
    have "decimalValue ?ds = nat n"
      using natDigits_props [of "nat n"] by (simp add: decimalValue_zeros)
    with n show ?thesis unfolding parseHost_grammar [OF g] by (simp add: maxInt_def)
  qed
  have B: "isl (parseHost (replicate j CHR ''0'' @ ''.localhost''))"
  proof (cases "j = 0")
    case True
    have "\<not> (replicate j CHR ''0'' \<noteq> [] \<and> list_all isDigit (replicate j CHR ''0''))"
      using True by simp
    from parseHost_bad_label(1) [OF this portSuffix_examples(1)] show ?thesis by simp
  next
    case False
    then have "replicate j CHR ''0'' \<noteq> []" by simp
    from hostGrammarI [OF this zeros_digits portSuffix_examples(1)]
    have g: "hostGrammar (replicate j CHR ''0'') (replicate j CHR ''0'' @ ''.localhost'')" by simp
    have "decimalValue (replicate j CHR ''0'') = 0"
      using decimalValue_zeros [of j "[]"] by simp
    then show ?thesis unfolding parseHost_grammar [OF g] by (simp add: maxInt_def)
  qed
  have C: "parseHost h = Inr (int (decimalValue ds))"
    if "hostGrammar ds h" "1 \<le> decimalValue ds" "decimalValue ds \<le> 65535"
    using that unfolding parseHost_grammar [OF that(1)] by (simp add: maxInt_def)
  have D: "isl (parseHost h)" if "hostGrammar ds h" "decimalValue ds = 0"
    using that unfolding parseHost_grammar [OF that(1)] by (simp add: maxInt_def)
  from A B C D show ?thesis by (simp add: parseHost_examples)
qed

theorem parseHost_leading_zeros_witness:
  "parseHost ''0008000.localhost'' = Inr 8000
   \<and> parseHost ''0443.localtest.me:8443'' = Inr 443
   \<and> isl (parseHost ''00.localhost:1'')"
proof -
  have d: "portSuffix '':8443''" "portSuffix '':1''" by (simp_all add: portSuffix_def isDigit_def)
  have g1: "hostGrammar ''0443'' ''0443.localtest.me:8443''"
    using hostGrammarI [of "''0443''" "'':8443''"] d by (simp add: isDigit_def)
  have g2: "hostGrammar ''00'' ''00.localhost:1''"
    using hostGrammarI [of "''00''" "'':1''"] d by (simp add: isDigit_def)
  have v: "decimalValue ''0443'' = 443" "decimalValue ''00'' = 0" by (simp_all add: digitVal_def)
  have z: "replicate 3 CHR ''0'' = ''000''" by (simp add: numeral_3_eq_3)
  show ?thesis
    using parseHost_leading_zeros [where n = 8000 and k = 3 and ds = "''0443''"
        and h = "''0443.localtest.me:8443''" and j = 2]
      parseHost_leading_zeros [where n = 8000 and k = 3 and ds = "''00''"
        and h = "''00.localhost:1''" and j = 2]
      g1 g2 v
    by (simp add: Itoa_examples z)
qed

section \<open>Properties of protocol dispatch\<close>

lemmas byte_eval = isUpperAZ_def isLowerAZ_def toLowerByte_def toUpperByte_def isDigit_def

lemma canon_keys:
  "CanonicalMIMEHeaderKey ''Connection'' = ''Connection''"
  "CanonicalMIMEHeaderKey ''Upgrade'' = ''Upgrade''"
  "CanonicalMIMEHeaderKey ''X-Request-ID'' = ''X-Request-Id''"
  "CanonicalMIMEHeaderKey ''X-Forwarded-For'' = ''X-Forwarded-For''"
  "CanonicalMIMEHeaderKey ''X-Forwarded-Proto'' = ''X-Forwarded-Proto''"
  "CanonicalMIMEHeaderKey ''X-Forwarded-Host'' = ''X-Forwarded-Host''"
  "CanonicalMIMEHeaderKey ''Content-Type'' = ''Content-Type''"
  by (simp_all add: CanonicalMIMEHeaderKey_def validHeaderFieldByte_def byte_eval)










section \<open>Properties of the response wrapper\<close>

lemma rw_WriteHeader_fields:
  "wroteHeader (rw_WriteHeader m rw code) = True"
  "bytesWritten (rw_WriteHeader m rw code) = bytesWritten rw"
  "err (rw_WriteHeader m rw code) = err rw"
  "statusCode (rw_WriteHeader m rw code) = (if wroteHeader rw then statusCode rw else code)"
  "ResponseWriter (rw_WriteHeader m rw code) =
     (if wroteHeader rw then ResponseWriter rw else uWriteHeader m (ResponseWriter rw) code)"
  by (simp_all add: rw_WriteHeader_def)

lemma rw_Write_fields:
  assumes "rw_Write m rw b = (res, rw')"
  shows "wroteHeader rw' = True"
    and "bytesWritten rw' = bytesWritten rw + of_nat (fst res)"
    and "err rw' = err rw"
    and "statusCode rw' = (if wroteHeader rw then statusCode rw else 200)"
    and "uWrite m (if wroteHeader rw then ResponseWriter rw
                   else uWriteHeader m (ResponseWriter rw) 200) b = (res, ResponseWriter rw')"
  using assms
  by (auto simp: rw_Write_def rw_WriteHeader_def Let_def split: prod.splits if_splits)

lemma rw_run_general:
  "rw_run m rw cs = (rs, rw') \<Longrightarrow>
     u_run m (ResponseWriter rw) (passed (wroteHeader rw) cs) = (rs, ResponseWriter rw')
     \<and> bytesWritten rw' = bytesWritten rw + of_nat (sum_list (map fst rs))
     \<and> statusCode rw' =
         (if wroteHeader rw then statusCode rw
          else (case cs of [] \<Rightarrow> statusCode rw | WriteHeaderCall c # _ \<Rightarrow> c | WriteCall _ # _ \<Rightarrow> 200))
     \<and> err rw' = err rw"
proof (induction cs arbitrary: rw rs rw')
  case Nil
  then show ?case by simp
next
  case (Cons c cs)
  show ?case
  proof (cases c)
    case (WriteHeaderCall code)
    with Cons.prems have r: "rw_run m (rw_WriteHeader m rw code) cs = (rs, rw')" by simp
    from Cons.IH [OF r] show ?thesis
      by (cases "wroteHeader rw") (simp_all add: WriteHeaderCall rw_WriteHeader_fields)
  next
    case (WriteCall b)
    obtain res rw1 where w: "rw_Write m rw b = (res, rw1)" by (cases "rw_Write m rw b")
    obtain rs1 rw2 where r: "rw_run m rw1 cs = (rs1, rw2)" by (cases "rw_run m rw1 cs")
    from Cons.prems WriteCall w r have e: "rs = res # rs1" "rw' = rw2" by simp_all
    from Cons.IH [OF r] rw_Write_fields [OF w] show ?thesis
      by (cases "wroteHeader rw") (simp_all add: WriteCall e ac_simps)
  qed
qed

lemma writesOf_passed: "writesOf (passed w cs) = writesOf cs"
  by (induction w cs rule: passed.induct) auto

lemma sint_of_nat_small:
  assumes "n < 2 ^ 63"
  shows "sint (of_nat n :: 64 word) = int n"
proof -
  from assms have "int n < 2 ^ 63" by simp
  moreover have "- (2 ^ 63) \<le> int n" by simp
  ultimately have "signed_take_bit 63 (int n) = int n"
    by (rule signed_take_bit_int_eq_self [rotated])
  then show ?thesis by (simp add: signed_of_nat)
qed

text \<open>
  Claim C9. The response wrapper observes without altering. For every wrapped writer and
  every sequence of \<open>WriteHeader\<close> and \<open>Write\<close> calls made on a fresh wrapper: the
  recorded status is 200 when the first call is a \<open>Write\<close> (body bytes before any explicit
  \<open>WriteHeader\<close>) or when there is no call, and otherwise the code of the first
  \<open>WriteHeader\<close> call, whatever follows; the recorded byte count is the sum of the counts
  the wrapped writer returned for the \<open>Write\<close> calls (as an \<open>int64\<close>, so exactly the sum
  while it is below \<open>2^63\<close>); the wrapped writer receives the calls of \<open>passed\<close>, in
  which every \<open>Write\<close> has its argument unchanged, and the wrapper returns the wrapped
  writer's own results.
\<close>

theorem responseWriter_observes:
  "rw_run m (newResponseWriter u) cs = (rs, rw') \<Longrightarrow>
     statusCode rw' = (case cs of [] \<Rightarrow> 200 | WriteHeaderCall c # _ \<Rightarrow> c | WriteCall _ # _ \<Rightarrow> 200)
     \<and> bytesWritten rw' = of_nat (sum_list (map fst rs))
     \<and> (sum_list (map fst rs) < 2 ^ 63 \<longrightarrow> sint (bytesWritten rw') = int (sum_list (map fst rs)))
     \<and> u_run m u (passed False cs) = (rs, ResponseWriter rw')
     \<and> writesOf (passed False cs) = writesOf cs"
proof -
  assume r: "rw_run m (newResponseWriter u) cs = (rs, rw')"
  have f: "ResponseWriter (newResponseWriter u) = u" "wroteHeader (newResponseWriter u) = False"
    "statusCode (newResponseWriter u) = 200" "bytesWritten (newResponseWriter u) = 0"
    by (simp_all add: newResponseWriter_def)
  from rw_run_general [OF r]
  have 1: "u_run m u (passed False cs) = (rs, ResponseWriter rw')"
    and 2: "bytesWritten rw' = of_nat (sum_list (map fst rs))"
    and 3: "statusCode rw' = (case cs of [] \<Rightarrow> 200 | WriteHeaderCall c # _ \<Rightarrow> c | WriteCall _ # _ \<Rightarrow> 200)"
    unfolding f by simp_all
  have 4: "sum_list (map fst rs) < 2 ^ 63 \<longrightarrow> sint (bytesWritten rw') = int (sum_list (map fst rs))"
    unfolding 2 using sint_of_nat_small by blast
  from 1 2 3 4 writesOf_passed [of False cs] show ?thesis by blast
qed

theorem responseWriter_observes_witness:
  "rw_run \<lparr>uWriteHeader = (\<lambda>u code. u @ [WriteHeaderCall code]),
           uWrite = (\<lambda>u b. ((length b, None), u @ [WriteCall b]))\<rparr>
      (newResponseWriter []) [WriteCall ''hi'', WriteHeaderCall 404, WriteCall ''!'']
     = ([(2, None), (1, None)],
        \<lparr>ResponseWriter = [WriteHeaderCall 200, WriteCall ''hi'', WriteCall ''!''],
         statusCode = 200, bytesWritten = 3, err = None, wroteHeader = True\<rparr>)
   \<and> sint (3 :: 64 word) = 3
   \<and> u_run \<lparr>uWriteHeader = (\<lambda>u code. u @ [WriteHeaderCall code]),
           uWrite = (\<lambda>u b. ((length b, None), u @ [WriteCall b]))\<rparr> []
        (passed False [WriteCall ''hi'', WriteHeaderCall 404, WriteCall ''!''])
     = ([(2, None), (1, None)], [WriteHeaderCall 200, WriteCall ''hi'', WriteCall ''!''])"
proof -
  let ?m = "\<lparr>uWriteHeader = (\<lambda>u code. u @ [WriteHeaderCall code]),
           uWrite = (\<lambda>u b. ((length b, None), u @ [WriteCall b]))\<rparr>"
  let ?cs = "[WriteCall ''hi'', WriteHeaderCall 404, WriteCall ''!'']"
  have r: "rw_run ?m (newResponseWriter []) ?cs
     = ([(2, None), (1, None)],
        \<lparr>ResponseWriter = [WriteHeaderCall 200, WriteCall ''hi'', WriteCall ''!''],
         statusCode = 200, bytesWritten = 3, err = None, wroteHeader = True\<rparr>)"
    by (simp add: newResponseWriter_def rw_Write_def rw_WriteHeader_def)
  from responseWriter_observes [OF r] r show ?thesis by simp
qed

section \<open>Properties of the request handler\<close>

lemma HeaderGet_HeaderSet_same: "HeaderGet (HeaderSet h k v) k = v"
  by (simp add: HeaderGet_def HeaderSet_def)

























lemma foldl_HeaderDel_other:
  "k \<notin> CanonicalMIMEHeaderKey ` set ks \<Longrightarrow> foldl HeaderDel h ks k = h k"
  by (induction ks arbitrary: h) (auto simp: HeaderDel_def)

lemma hopHeaders_canon:
  "map CanonicalMIMEHeaderKey hopHeaders = hopHeaders"
  by (simp add: hopHeaders_def CanonicalMIMEHeaderKey_def validHeaderFieldByte_def byte_eval)

lemma hopHeaders_not_forwarded: "''X-Forwarded-For'' \<notin> CanonicalMIMEHeaderKey ` set hopHeaders"
proof -
  have "CanonicalMIMEHeaderKey ` set hopHeaders = set (map CanonicalMIMEHeaderKey hopHeaders)"
    by simp
  also have "\<dots> = set hopHeaders" by (simp only: hopHeaders_canon)
  finally show ?thesis by (simp add: hopHeaders_def)
qed

lemma removeHopByHopHeaders_forwarded:
  assumes "''X-Forwarded-For'' \<notin> CanonicalMIMEHeaderKey ` set (connectionTokens h)"
  shows "removeHopByHopHeaders h ''X-Forwarded-For'' = h ''X-Forwarded-For''"
  unfolding removeHopByHopHeaders_def
  by (simp only: foldl_HeaderDel_other [OF hopHeaders_not_forwarded] foldl_HeaderDel_other [OF assms])

lemma director_header:
  assumes "splitHostPort world (RemoteAddr r) = Some (ip, p)"
  shows "ReqHeader (director world r requestID port r) ''X-Forwarded-For'' =
           Some [if HeaderGet (ReqHeader r) ''X-Forwarded-For'' \<noteq> []
                 then HeaderGet (ReqHeader r) ''X-Forwarded-For'' @ '', '' @ ip else ip]"
    and "ReqHeader (director world r requestID port r) ''Connection'' = ReqHeader r ''Connection''"
  using assms by (simp_all add: director_def Let_def HeaderSet_def canon_keys)

lemma director_forwarded_for:
  assumes "splitHostPort world (RemoteAddr r) = Some (ip, p)"
  shows "HeaderGet (ReqHeader (director world r requestID port r)) ''X-Forwarded-For'' =
           (if HeaderGet (ReqHeader r) ''X-Forwarded-For'' \<noteq> []
            then HeaderGet (ReqHeader r) ''X-Forwarded-For'' @ '', '' @ ip else ip)"
  using director_header(1) [OF assms, of requestID port]
  by (simp add: HeaderGet_def canon_keys)

lemma outboundRequest_forwarded_for:
  assumes "splitHostPort world (RemoteAddr r) = Some (ip, p)"
    and "''X-Forwarded-For'' \<notin> CanonicalMIMEHeaderKey ` set (connectionTokens (ReqHeader r))"
  shows "HeaderGet (ReqHeader (outboundRequest world r requestID port)) ''X-Forwarded-For'' =
           (if HeaderGet (ReqHeader r) ''X-Forwarded-For'' \<noteq> []
            then HeaderGet (ReqHeader r) ''X-Forwarded-For'' @ '', '' @ ip else ip) @ '', '' @ ip"
proof -
  let ?h = "ReqHeader (director world r requestID port r)"
  have "connectionTokens ?h = connectionTokens (ReqHeader r)"
    by (simp add: connectionTokens_def director_header(2) [OF assms(1)])
  with assms(2) have "removeHopByHopHeaders ?h ''X-Forwarded-For'' = ?h ''X-Forwarded-For''"
    by (simp add: removeHopByHopHeaders_forwarded)
  then show ?thesis
    using assms(1) director_header(1) [OF assms(1), of requestID port]
    by (simp add: outboundRequest_def Let_def libForwardedFor_def HeaderGet_HeaderSet_same)
qed

text \<open>
  Claim C8, at a request from 192.0.2.7 with no X-Forwarded-For header of its own. The
  \<open>Director\<close> sets the header to the client address, and the library appends the client
  address once more: the backend receives \<open>192.0.2.7, 192.0.2.7\<close>, not the client
  address appended once.
\<close>

theorem handleHTTP_forwarded_for_twice:
  "map_option (\<lambda>q. HeaderGet (ReqHeader q) ''X-Forwarded-For'')
     (sentToBackend (ServeHTTP
        \<lparr>nowUnixNano = 1700000000000000000,
       splitHostPort = (\<lambda>a. if a = ''192.0.2.7:51234'' then Some (''192.0.2.7'', ''51234'') else None),
       encodeJSON = (\<lambda>ms. concat (map (\<lambda>(k, v). k @ ''='' @ v @ '';'') ms)),
       roundTrip = (\<lambda>q. Inr \<lparr>StatusCode = 200, RespHeader = Map.empty, RespBody = [''OK'']\<rparr>),
       dialOK = True, hijackOK = True, writeRequestOK = True,
       backendStream = ''HTTP/1.1 101 Switching Protocols''\<rparr>
        \<lparr>cfg = \<lparr>ListenAddr = '':443'', CertPath = ''./cert/localhost.pem'',
       KeyPath = ''./cert/localhost-key.pem'', SelfSigned = True,
       DenyPorts = [\<lparr>Start = 22, End = 22\<rparr>], AllowRange = \<lparr>Start = 1024, End = 65535\<rparr>,
       Verbose = False, AccessLog = True, ReadHeaderTimeout = 10, IdleTimeout = 120,
       WriteTimeout = 30, DialTimeout = 10\<rparr>, requestIDGen = 0\<rparr>
        (freshWriter True)
        \<lparr>Method = ''GET'', ReqURL = \<lparr>Scheme = [], URLHost = [], Path = ''/'', RawQuery = []\<rparr>,
       ReqHeader = Map.empty, Body = [], Host = ''8000.localhost'', RemoteAddr = ''192.0.2.7:51234''\<rparr>))
   = Some ''192.0.2.7, 192.0.2.7''"
proof -
  let ?W = "\<lparr>nowUnixNano = 1700000000000000000,
       splitHostPort = (\<lambda>a. if a = ''192.0.2.7:51234'' then Some (''192.0.2.7'', ''51234'') else None),
       encodeJSON = (\<lambda>ms. concat (map (\<lambda>(k, v). k @ ''='' @ v @ '';'') ms)),
       roundTrip = (\<lambda>q. Inr \<lparr>StatusCode = 200, RespHeader = Map.empty, RespBody = [''OK'']\<rparr>),
       dialOK = True, hijackOK = True, writeRequestOK = True,
       backendStream = ''HTTP/1.1 101 Switching Protocols''\<rparr>"
  let ?S = "\<lparr>cfg = \<lparr>ListenAddr = '':443'', CertPath = ''./cert/localhost.pem'',
       KeyPath = ''./cert/localhost-key.pem'', SelfSigned = True,
       DenyPorts = [\<lparr>Start = 22, End = 22\<rparr>], AllowRange = \<lparr>Start = 1024, End = 65535\<rparr>,
       Verbose = False, AccessLog = True, ReadHeaderTimeout = 10, IdleTimeout = 120,
       WriteTimeout = 30, DialTimeout = 10\<rparr>, requestIDGen = 0\<rparr>"
  let ?R = "\<lparr>Method = ''GET'', ReqURL = \<lparr>Scheme = [], URLHost = [], Path = ''/'', RawQuery = []\<rparr>,
       ReqHeader = Map.empty, Body = [], Host = ''8000.localhost'', RemoteAddr = ''192.0.2.7:51234''\<rparr>"
  have h: "parseHost (Host ?R) = Inr 8000" "IsPortAllowed (cfg ?S) 8000" "\<not> isWebSocketRequest ?R"
    by (simp_all add: parseHost_examples IsPortAllowed_def Contains_def
          isWebSocketRequest_def HeaderGet_def canon_keys ToLower_def byte_eval)
  have s: "sentToBackend (ServeHTTP ?W ?S (freshWriter True) ?R) =
           Some (outboundRequest ?W ?R (fst (generateRequestID ?W ?S)) 8000)"
    using h by (simp add: ServeHTTP_def Let_def case_prod_beta)
  have a: "splitHostPort ?W (RemoteAddr ?R) = Some (''192.0.2.7'', ''51234'')" by simp
  have b: "''X-Forwarded-For'' \<notin> CanonicalMIMEHeaderKey ` set (connectionTokens (ReqHeader ?R))"
    by (simp add: connectionTokens_def)
  have p: "HeaderGet (ReqHeader ?R) ''X-Forwarded-For'' = []" by (simp add: HeaderGet_def)
  show ?thesis
    unfolding s using outboundRequest_forwarded_for [OF a b] p by simp
qed

lemma foldl_HeaderDel_None: "h k = None \<Longrightarrow> foldl HeaderDel h ks k = None"
  by (induction ks arbitrary: h) (auto simp: HeaderDel_def)

lemma foldl_HeaderDel_deleted:
  "k \<in> CanonicalMIMEHeaderKey ` set ks \<Longrightarrow> foldl HeaderDel h ks k = None"
proof (induction ks arbitrary: h)
  case Nil
  then show ?case by simp
next
  case (Cons a ks)
  show ?case
  proof (cases "k = CanonicalMIMEHeaderKey a")
    case True
    then have "HeaderDel h a k = None" by (simp add: HeaderDel_def)
    then show ?thesis by (simp add: foldl_HeaderDel_None)
  next
    case False
    with Cons.prems have "k \<in> CanonicalMIMEHeaderKey ` set ks" by auto
    from Cons.IH [OF this] show ?thesis by simp
  qed
qed

lemma director_connection:
  "ReqHeader (director world r requestID port r) ''Connection'' = ReqHeader r ''Connection''"
  by (cases "splitHostPort world (RemoteAddr r)")
     (auto simp: director_def Let_def HeaderSet_def canon_keys)

lemma libForwardedFor_other:
  "k \<noteq> ''X-Forwarded-For'' \<Longrightarrow> libForwardedFor world r h k = h k"
  by (auto simp: libForwardedFor_def HeaderSet_def canon_keys split: option.splits list.splits)

text \<open>
  The library removes the headers that the request's Connection header names after the
  \<open>Director\<close> has run, also those the \<open>Director\<close> has just set.
\<close>

lemma outboundRequest_connection_strips:
  assumes "k \<in> CanonicalMIMEHeaderKey ` set (connectionTokens (ReqHeader r))"
    and "k \<noteq> ''X-Forwarded-For''"
  shows "ReqHeader (outboundRequest world r requestID port) k = None"
proof -
  let ?h = "ReqHeader (director world r requestID port r)"
  have "connectionTokens ?h = connectionTokens (ReqHeader r)"
    by (simp add: connectionTokens_def director_connection)
  with assms(1) have "foldl HeaderDel ?h (connectionTokens ?h) k = None"
    by (simp add: foldl_HeaderDel_deleted)
  then have "removeHopByHopHeaders ?h k = None"
    by (simp add: removeHopByHopHeaders_def foldl_HeaderDel_None)
  with assms(2) show ?thesis
    by (simp add: outboundRequest_def Let_def libForwardedFor_other)
qed

lemma outboundRequest_connection_strips_example:
  "HeaderGet (ReqHeader (outboundRequest
      \<lparr>nowUnixNano = 1700000000000000000,
       splitHostPort = (\<lambda>a. if a = ''192.0.2.7:51234'' then Some (''192.0.2.7'', ''51234'') else None),
       encodeJSON = (\<lambda>ms. concat (map (\<lambda>(k, v). k @ ''='' @ v @ '';'') ms)),
       roundTrip = (\<lambda>q. Inl \<lparr>errText = ''dial tcp 127.0.0.1:8000: connect: connection refused'', errTimeout = False\<rparr>),
       dialOK = True, hijackOK = True, writeRequestOK = True,
       backendStream = ''HTTP/1.1 101 Switching Protocols''\<rparr>
      \<lparr>Method = ''GET'', ReqURL = \<lparr>Scheme = [], URLHost = [], Path = ''/'', RawQuery = []\<rparr>,
       ReqHeader = [''Connection'' \<mapsto> [''X-Forwarded-Proto'']], Body = [], Host = ''8000.localhost'', RemoteAddr = ''192.0.2.7:51234''\<rparr>
      ''1700000000000000000-1'' 8000)) ''X-Forwarded-Proto'' = []"
proof -
  let ?R = "\<lparr>Method = ''GET'', ReqURL = \<lparr>Scheme = [], URLHost = [], Path = ''/'', RawQuery = []\<rparr>,
       ReqHeader = [''Connection'' \<mapsto> [''X-Forwarded-Proto'']], Body = [], Host = ''8000.localhost'', RemoteAddr = ''192.0.2.7:51234''\<rparr>"
  have "connectionTokens (ReqHeader ?R) = [''X-Forwarded-Proto'']"
    by (simp add: connectionTokens_def trimBlanks_def isBlank_def)
  then have "''X-Forwarded-Proto'' \<in> CanonicalMIMEHeaderKey ` set (connectionTokens (ReqHeader ?R))"
    by (simp add: canon_keys)
  from outboundRequest_connection_strips [OF this] show ?thesis
    by (simp add: HeaderGet_def canon_keys)
qed

text \<open>
  What else the backend receives: the method, the path, the query, the body and the Host
  of the inbound request, at \<open>http://127.0.0.1:<port>\<close>; and the three headers that the
  \<open>Director\<close> sets, unless the request's Connection header names them.
\<close>

lemma outboundRequest_fields:
  "Method (outboundRequest world r requestID port) = Method r
   \<and> Body (outboundRequest world r requestID port) = Body r
   \<and> Host (outboundRequest world r requestID port) = Host r
   \<and> Path (ReqURL (outboundRequest world r requestID port)) = Path (ReqURL r)
   \<and> RawQuery (ReqURL (outboundRequest world r requestID port)) = RawQuery (ReqURL r)
   \<and> Scheme (ReqURL (outboundRequest world r requestID port)) = ''http''
   \<and> URLHost (ReqURL (outboundRequest world r requestID port)) = ''127.0.0.1:'' @ Itoa port"
  by (simp add: outboundRequest_def director_def Let_def)

lemma hopHeaders_not_set:
  "''X-Forwarded-Proto'' \<notin> CanonicalMIMEHeaderKey ` set hopHeaders"
  "''X-Forwarded-Host'' \<notin> CanonicalMIMEHeaderKey ` set hopHeaders"
  "''X-Request-Id'' \<notin> CanonicalMIMEHeaderKey ` set hopHeaders"
proof -
  have "CanonicalMIMEHeaderKey ` set hopHeaders = set (map CanonicalMIMEHeaderKey hopHeaders)"
    by simp
  also have "\<dots> = set hopHeaders" by (simp only: hopHeaders_canon)
  finally show "''X-Forwarded-Proto'' \<notin> CanonicalMIMEHeaderKey ` set hopHeaders"
    "''X-Forwarded-Host'' \<notin> CanonicalMIMEHeaderKey ` set hopHeaders"
    "''X-Request-Id'' \<notin> CanonicalMIMEHeaderKey ` set hopHeaders"
    by (simp_all add: hopHeaders_def)
qed

lemma director_set_headers:
  "ReqHeader (director world r requestID port r) ''X-Forwarded-Proto'' = Some [''https'']"
  "ReqHeader (director world r requestID port r) ''X-Forwarded-Host'' = Some [Host r]"
  "ReqHeader (director world r requestID port r) ''X-Request-Id'' = Some [requestID]"
  by (simp_all add: director_def Let_def HeaderSet_def canon_keys)

lemma outboundRequest_kept:
  assumes "k \<notin> CanonicalMIMEHeaderKey ` set (connectionTokens (ReqHeader r))"
    and "k \<notin> CanonicalMIMEHeaderKey ` set hopHeaders" and "k \<noteq> ''X-Forwarded-For''"
  shows "ReqHeader (outboundRequest world r requestID port) k =
         ReqHeader (director world r requestID port r) k"
proof -
  let ?h = "ReqHeader (director world r requestID port r)"
  have "connectionTokens ?h = connectionTokens (ReqHeader r)"
    by (simp add: connectionTokens_def director_connection)
  with assms(1,2) have "removeHopByHopHeaders ?h k = ?h k"
    by (simp add: removeHopByHopHeaders_def foldl_HeaderDel_other)
  with assms(3) show ?thesis
    by (simp add: outboundRequest_def Let_def libForwardedFor_other)
qed

lemma outboundRequest_set_headers:
  assumes "''X-Forwarded-Proto'' \<notin> CanonicalMIMEHeaderKey ` set (connectionTokens (ReqHeader r))"
    and "''X-Forwarded-Host'' \<notin> CanonicalMIMEHeaderKey ` set (connectionTokens (ReqHeader r))"
    and "''X-Request-Id'' \<notin> CanonicalMIMEHeaderKey ` set (connectionTokens (ReqHeader r))"
  shows "HeaderGet (ReqHeader (outboundRequest world r requestID port)) ''X-Forwarded-Proto'' = ''https''"
    and "HeaderGet (ReqHeader (outboundRequest world r requestID port)) ''X-Forwarded-Host'' = Host r"
    and "HeaderGet (ReqHeader (outboundRequest world r requestID port)) ''X-Request-ID'' = requestID"
  using outboundRequest_kept [OF assms(1) hopHeaders_not_set(1), of world requestID port]
    outboundRequest_kept [OF assms(2) hopHeaders_not_set(2), of world requestID port]
    outboundRequest_kept [OF assms(3) hopHeaders_not_set(3), of world requestID port]
  by (simp_all add: HeaderGet_def canon_keys director_set_headers)

section \<open>Properties of certificate provisioning\<close>

lemma generateSelfSignedCert_success:
  assumes "generateSelfSignedCert lib run fs cp kp = (Inr t, fs')"
  shows "\<exists>cert. LoadX509KeyPair lib fs' cp kp = Some cert \<and> t = createTLSConfig cert"
  using assms
  by (auto simp: generateSelfSignedCert_def split: option.splits if_splits prod.splits)

lemma LoadX509KeyPair_exists:
  assumes "LoadX509KeyPair lib fs cp kp = Some cert"
  shows "fileExists fs cp \<and> fileExists fs kp"
  using assms by (auto simp: LoadX509KeyPair_def fileExists_def split: option.splits)

lemma LoadOrGenerateCert_reuse:
  assumes "tlsSelfSigned c" "LoadX509KeyPair lib fs (tlsCertPath c) (tlsKeyPath c) = Some cert"
  shows "LoadOrGenerateCert lib run fs c = (Inr (createTLSConfig cert), fs)"
  using assms LoadX509KeyPair_exists [OF assms(2)]
  by (simp add: LoadOrGenerateCert_def loadCertificates_def)

lemma LoadOrGenerateCert_success:
  assumes "tlsSelfSigned c" "LoadOrGenerateCert lib run fs c = (Inr t, fs')"
  shows "\<exists>cert. LoadX509KeyPair lib fs' (tlsCertPath c) (tlsKeyPath c) = Some cert \<and> t = createTLSConfig cert"
proof (cases "fileExists fs (tlsCertPath c) \<and> fileExists fs (tlsKeyPath c)
              \<and> LoadX509KeyPair lib fs (tlsCertPath c) (tlsKeyPath c) \<noteq> None")
  case True
  then obtain cert where l: "LoadX509KeyPair lib fs (tlsCertPath c) (tlsKeyPath c) = Some cert"
    by auto
  from LoadOrGenerateCert_reuse [OF assms(1) l, of run] assms(2) l show ?thesis by auto
next
  case False
  then have "LoadOrGenerateCert lib run fs c =
             generateSelfSignedCert lib run fs (tlsCertPath c) (tlsKeyPath c)"
    using assms(1) by (auto simp: LoadOrGenerateCert_def loadCertificates_def Let_def)
  with assms(2) generateSelfSignedCert_success show ?thesis by metis
qed

text \<open>
  Claim C6. Self-signed provisioning is idempotent. If a loadable certificate and key
  pair exists at the configured paths, \<open>LoadOrGenerateCert\<close> in self-signed mode returns
  the TLS configuration built from that pair and leaves the file system, so also the
  certificate, key and CA files, as it is. In particular, after a successful call in
  self-signed mode, a second call with the same paths (whatever its clock readings and
  random choices) returns the same configuration and leaves every file of the first call
  unchanged.
\<close>

theorem LoadOrGenerateCert_idempotent:
  "(tlsSelfSigned c \<and> LoadX509KeyPair lib fs (tlsCertPath c) (tlsKeyPath c) = Some cert \<longrightarrow>
      LoadOrGenerateCert lib run fs c = (Inr (createTLSConfig cert), fs))
   \<and> (tlsSelfSigned c \<and> LoadOrGenerateCert lib run1 fs c = (Inr t, fs1) \<longrightarrow>
      LoadOrGenerateCert lib run2 fs1 c = (Inr t, fs1))"
proof (intro conjI impI)
  assume "tlsSelfSigned c \<and> LoadX509KeyPair lib fs (tlsCertPath c) (tlsKeyPath c) = Some cert"
  then show "LoadOrGenerateCert lib run fs c = (Inr (createTLSConfig cert), fs)"
    by (simp add: LoadOrGenerateCert_reuse)
next
  assume a: "tlsSelfSigned c \<and> LoadOrGenerateCert lib run1 fs c = (Inr t, fs1)"
  then have s: "tlsSelfSigned c" and r: "LoadOrGenerateCert lib run1 fs c = (Inr t, fs1)"
    by simp_all
  from LoadOrGenerateCert_success [OF s r]
  obtain cert' where l: "LoadX509KeyPair lib fs1 (tlsCertPath c) (tlsKeyPath c) = Some cert'"
    and t: "t = createTLSConfig cert'"
    by auto
  from LoadOrGenerateCert_reuse [OF s l, of run2] t
  show "LoadOrGenerateCert lib run2 fs1 c = (Inr t, fs1)" by simp
qed

theorem LoadOrGenerateCert_idempotent_witness:
  "LoadOrGenerateCert
      \<lparr>x509KeyPair = (\<lambda>c k. if c = [] \<or> k = [] then None else Some (c, k)),
       parseCertificate = (\<lambda>d. Some \<lparr>SerialNumber = 1, Organization = [], CommonName = ''HTTPSify Root CA'',
            NotBefore = 0, NotAfter = 1, KeyUsage = 96, ExtKeyUsages = [],
            BasicConstraintsValid = True, IsCA = True, MaxPathLen = 1, MaxPathLenZero = False,
            DNSNames = [], IPAddresses = []\<rparr>),
       marshalECPrivateKey = (\<lambda>k. Some ''key''),
       pemEncode = (\<lambda>t b. t @ '':'' @ b @ '';''),
       addDate = (\<lambda>t y m d. t + y * 31536000000000000),
       pathDir = (\<lambda>p. ''cert''),
       pathJoin = (\<lambda>d f. d @ ''/'' @ f)\<rparr>
      \<lparr>clock = (\<lambda>n. 1700000000000000000), generateKey = (\<lambda>n. Some n), randInt = Some 42,
       createCertificate = (\<lambda>t p pub priv. Some (CommonName t)),
       mkdirAllOK = (\<lambda>d. True), openOK = (\<lambda>p. True), writeOK = (\<lambda>n. True)\<rparr>
      Map.empty
      \<lparr>tlsCertPath = ''cert/localhost.pem'', tlsKeyPath = ''cert/localhost-key.pem'', tlsSelfSigned = True\<rparr>
    = (Inr (createTLSConfig (''CERTIFICATE:localhost;CERTIFICATE:HTTPSify Root CA;'', ''EC PRIVATE KEY:key;'')),
       [''cert/localhost.pem'' \<mapsto> ''CERTIFICATE:localhost;CERTIFICATE:HTTPSify Root CA;'',
        ''cert/localhost-key.pem'' \<mapsto> ''EC PRIVATE KEY:key;'',
        ''cert/ca.pem'' \<mapsto> ''CERTIFICATE:HTTPSify Root CA;''])
   \<and> LoadOrGenerateCert
      \<lparr>x509KeyPair = (\<lambda>c k. if c = [] \<or> k = [] then None else Some (c, k)),
       parseCertificate = (\<lambda>d. Some \<lparr>SerialNumber = 1, Organization = [], CommonName = ''HTTPSify Root CA'',
            NotBefore = 0, NotAfter = 1, KeyUsage = 96, ExtKeyUsages = [],
            BasicConstraintsValid = True, IsCA = True, MaxPathLen = 1, MaxPathLenZero = False,
            DNSNames = [], IPAddresses = []\<rparr>),
       marshalECPrivateKey = (\<lambda>k. Some ''key''),
       pemEncode = (\<lambda>t b. t @ '':'' @ b @ '';''),
       addDate = (\<lambda>t y m d. t + y * 31536000000000000),
       pathDir = (\<lambda>p. ''cert''),
       pathJoin = (\<lambda>d f. d @ ''/'' @ f)\<rparr>
      \<lparr>clock = (\<lambda>n. 1800000000000000000), generateKey = (\<lambda>n. None :: nat option), randInt = Some 42,
       createCertificate = (\<lambda>t p pub priv. Some (CommonName t)),
       mkdirAllOK = (\<lambda>d. True), openOK = (\<lambda>p. True), writeOK = (\<lambda>n. True)\<rparr>
      [''cert/localhost.pem'' \<mapsto> ''CERTIFICATE:localhost;CERTIFICATE:HTTPSify Root CA;'',
        ''cert/localhost-key.pem'' \<mapsto> ''EC PRIVATE KEY:key;'',
        ''cert/ca.pem'' \<mapsto> ''CERTIFICATE:HTTPSify Root CA;'']
      \<lparr>tlsCertPath = ''cert/localhost.pem'', tlsKeyPath = ''cert/localhost-key.pem'', tlsSelfSigned = True\<rparr>
    = (Inr (createTLSConfig (''CERTIFICATE:localhost;CERTIFICATE:HTTPSify Root CA;'', ''EC PRIVATE KEY:key;'')),
       [''cert/localhost.pem'' \<mapsto> ''CERTIFICATE:localhost;CERTIFICATE:HTTPSify Root CA;'',
        ''cert/localhost-key.pem'' \<mapsto> ''EC PRIVATE KEY:key;'',
        ''cert/ca.pem'' \<mapsto> ''CERTIFICATE:HTTPSify Root CA;''])
   \<and> LoadOrGenerateCert
      \<lparr>x509KeyPair = (\<lambda>c k. if c = [] \<or> k = [] then None else Some (c, k)),
       parseCertificate = (\<lambda>d. Some \<lparr>SerialNumber = 1, Organization = [], CommonName = ''HTTPSify Root CA'',
            NotBefore = 0, NotAfter = 1, KeyUsage = 96, ExtKeyUsages = [],
            BasicConstraintsValid = True, IsCA = True, MaxPathLen = 1, MaxPathLenZero = False,
            DNSNames = [], IPAddresses = []\<rparr>),
       marshalECPrivateKey = (\<lambda>k. Some ''key''),
       pemEncode = (\<lambda>t b. t @ '':'' @ b @ '';''),
       addDate = (\<lambda>t y m d. t + y * 31536000000000000),
       pathDir = (\<lambda>p. ''cert''),
       pathJoin = (\<lambda>d f. d @ ''/'' @ f)\<rparr>
      \<lparr>clock = (\<lambda>n. 1700000000000000000), generateKey = (\<lambda>n. Some n), randInt = Some 42,
       createCertificate = (\<lambda>t p pub priv. Some (CommonName t)),
       mkdirAllOK = (\<lambda>d. True), openOK = (\<lambda>p. True), writeOK = (\<lambda>n. True)\<rparr>
      [''cert/localhost.pem'' \<mapsto> ''CERTIFICATE:localhost;CERTIFICATE:HTTPSify Root CA;'',
        ''cert/localhost-key.pem'' \<mapsto> ''EC PRIVATE KEY:key;'',
        ''cert/ca.pem'' \<mapsto> ''CERTIFICATE:HTTPSify Root CA;'']
      \<lparr>tlsCertPath = ''cert/localhost.pem'', tlsKeyPath = ''cert/localhost-key.pem'', tlsSelfSigned = True\<rparr>
    = (Inr (createTLSConfig (''CERTIFICATE:localhost;CERTIFICATE:HTTPSify Root CA;'', ''EC PRIVATE KEY:key;'')),
       [''cert/localhost.pem'' \<mapsto> ''CERTIFICATE:localhost;CERTIFICATE:HTTPSify Root CA;'',
        ''cert/localhost-key.pem'' \<mapsto> ''EC PRIVATE KEY:key;'',
        ''cert/ca.pem'' \<mapsto> ''CERTIFICATE:HTTPSify Root CA;''])"
proof -
  let ?L = "\<lparr>x509KeyPair = (\<lambda>c k. if c = [] \<or> k = [] then None else Some (c, k)),
       parseCertificate = (\<lambda>d. Some \<lparr>SerialNumber = 1, Organization = [], CommonName = ''HTTPSify Root CA'',
            NotBefore = 0, NotAfter = 1, KeyUsage = 96, ExtKeyUsages = [],
            BasicConstraintsValid = True, IsCA = True, MaxPathLen = 1, MaxPathLenZero = False,
            DNSNames = [], IPAddresses = []\<rparr>),
       marshalECPrivateKey = (\<lambda>k. Some ''key''),
       pemEncode = (\<lambda>t b. t @ '':'' @ b @ '';''),
       addDate = (\<lambda>t y m d. t + y * 31536000000000000),
       pathDir = (\<lambda>p. ''cert''),
       pathJoin = (\<lambda>d f. d @ ''/'' @ f)\<rparr>"
  let ?R1 = "\<lparr>clock = (\<lambda>n. 1700000000000000000), generateKey = (\<lambda>n. Some n), randInt = Some 42,
       createCertificate = (\<lambda>t p pub priv. Some (CommonName t)),
       mkdirAllOK = (\<lambda>d. True), openOK = (\<lambda>p. True), writeOK = (\<lambda>n. True)\<rparr>"
  let ?R2 = "\<lparr>clock = (\<lambda>n. 1800000000000000000), generateKey = (\<lambda>n. None :: nat option), randInt = Some 42,
       createCertificate = (\<lambda>t p pub priv. Some (CommonName t)),
       mkdirAllOK = (\<lambda>d. True), openOK = (\<lambda>p. True), writeOK = (\<lambda>n. True)\<rparr>"
  let ?C = "\<lparr>tlsCertPath = ''cert/localhost.pem'', tlsKeyPath = ''cert/localhost-key.pem'', tlsSelfSigned = True\<rparr>"
  let ?F = "[''cert/localhost.pem'' \<mapsto> ''CERTIFICATE:localhost;CERTIFICATE:HTTPSify Root CA;'',
        ''cert/localhost-key.pem'' \<mapsto> ''EC PRIVATE KEY:key;'',
        ''cert/ca.pem'' \<mapsto> ''CERTIFICATE:HTTPSify Root CA;'']"
  let ?K = "(''CERTIFICATE:localhost;CERTIFICATE:HTTPSify Root CA;'', ''EC PRIVATE KEY:key;'')"
  let ?T = "createTLSConfig ?K"
  have w: "writeFiles ?L ?R1 Map.empty ''cert/localhost.pem'' ''cert/localhost-key.pem''
             ''localhost'' ''HTTPSify Root CA'' k = (None, ?F)" for k
    by (simp add: writeFiles_def openTrunc_def appendFile_def Let_def fun_upd_twist)
  have g: "generateSelfSignedCert ?L ?R1 Map.empty ''cert/localhost.pem'' ''cert/localhost-key.pem''
           = (Inr ?T, ?F)"
    unfolding generateSelfSignedCert_def using w
    by (simp add: caTemplate_def leafTemplate_def LoadX509KeyPair_def)
  have first: "LoadOrGenerateCert ?L ?R1 Map.empty ?C = (Inr ?T, ?F)"
    using g by (simp add: LoadOrGenerateCert_def fileExists_def)
  have s: "tlsSelfSigned ?C" by simp
  have l: "LoadX509KeyPair ?L ?F (tlsCertPath ?C) (tlsKeyPath ?C) = Some ?K"
    by (simp add: LoadX509KeyPair_def)
  have second: "LoadOrGenerateCert ?L ?R2 ?F ?C = (Inr ?T, ?F)"
    by (rule mp [OF conjunct2 [OF LoadOrGenerateCert_idempotent] conjI [OF s first]])
  have third: "LoadOrGenerateCert ?L ?R1 ?F ?C = (Inr ?T, ?F)"
    by (rule mp [OF conjunct1 [OF LoadOrGenerateCert_idempotent] conjI [OF s l]])
  from first second third show ?thesis by (intro conjI)
qed

lemmas keyUsage_eval =
  KeyUsageDigitalSignature_def KeyUsageContentCommitment_def KeyUsageKeyEncipherment_def
  KeyUsageDataEncipherment_def KeyUsageKeyAgreement_def KeyUsageCertSign_def KeyUsageCRLSign_def
  KeyUsageEncipherOnly_def KeyUsageDecipherOnly_def

lemma caTemplate_pathLen: "pathLenConstraint (caTemplate lib run) = Some 1"
  by (simp add: pathLenConstraint_def caTemplate_def)

text \<open>
  The path-length constraint of the CA template is 1, and a constraint of 1 admits a chain
  with one intermediate CA between the root and the leaf.
\<close>

theorem caTemplate_intermediate_counterexample:
  "permitsIntermediates
     (caTemplate
        \<lparr>x509KeyPair = (\<lambda>c k. if c = [] \<or> k = [] then None else Some (c, k)),
       parseCertificate = (\<lambda>d. Some \<lparr>SerialNumber = 1, Organization = [], CommonName = ''HTTPSify Root CA'',
            NotBefore = 0, NotAfter = 1, KeyUsage = 96, ExtKeyUsages = [],
            BasicConstraintsValid = True, IsCA = True, MaxPathLen = 1, MaxPathLenZero = False,
            DNSNames = [], IPAddresses = []\<rparr>),
       marshalECPrivateKey = (\<lambda>k. Some ''key''),
       pemEncode = (\<lambda>t b. t @ '':'' @ b @ '';''),
       addDate = (\<lambda>t y m d. t + y * 31536000000000000),
       pathDir = (\<lambda>p. ''cert''),
       pathJoin = (\<lambda>d f. d @ ''/'' @ f)\<rparr>
        \<lparr>clock = (\<lambda>n. 1700000000000000000), generateKey = (\<lambda>n. Some n), randInt = Some 42,
       createCertificate = (\<lambda>t p pub priv. Some (CommonName t)),
       mkdirAllOK = (\<lambda>d. True), openOK = (\<lambda>p. True), writeOK = (\<lambda>n. True)\<rparr>)
     1"
  by (simp add: permitsIntermediates_def caTemplate_pathLen)

text \<open>
  Claim C7, as the code has it. The synthesized root CA certificate has the key usage
  certificate signing plus CRL signing and no other; it is valid from one hour before the
  clock reading to ten calendar years after it; it is a CA with valid basic constraints
  and the path-length constraint 1, so that at most one intermediate CA may stand between
  it and a leaf certificate: it may sign leaves directly or through a single intermediate
  CA, and no chain with two intermediates is admitted.
\<close>

theorem caTemplate_constraints:
  "KeyUsage (caTemplate lib run) = KeyUsageCertSign OR KeyUsageCRLSign
   \<and> map (hasKeyUsage (caTemplate lib run)) allKeyUsages
       = [False, False, False, False, False, True, True, False, False]
   \<and> NotBefore (caTemplate lib run) = clock run 0 - Hour
   \<and> NotAfter (caTemplate lib run) = addDate lib (clock run 1) 10 0 0
   \<and> IsCA (caTemplate lib run) \<and> BasicConstraintsValid (caTemplate lib run)
   \<and> pathLenConstraint (caTemplate lib run) = Some 1
   \<and> (\<forall>k. permitsIntermediates (caTemplate lib run) k \<longleftrightarrow> k \<le> 1)"
proof -
  have u: "map (hasKeyUsage (caTemplate lib run)) allKeyUsages
       = [False, False, False, False, False, True, True, False, False]"
    by (simp add: hasKeyUsage_def allKeyUsages_def caTemplate_def keyUsage_eval)
  have p: "\<forall>k. permitsIntermediates (caTemplate lib run) k \<longleftrightarrow> k \<le> 1"
    by (simp add: permitsIntermediates_def caTemplate_pathLen)
  have f: "KeyUsage (caTemplate lib run) = KeyUsageCertSign OR KeyUsageCRLSign"
    "NotBefore (caTemplate lib run) = clock run 0 - Hour"
    "NotAfter (caTemplate lib run) = addDate lib (clock run 1) 10 0 0"
    "IsCA (caTemplate lib run)" "BasicConstraintsValid (caTemplate lib run)"
    by (simp_all add: caTemplate_def)
  from u p f caTemplate_pathLen [of lib run] show ?thesis by (intro conjI)
qed

theorem caTemplate_constraints_witness:
  "permitsIntermediates
     (caTemplate
        \<lparr>x509KeyPair = (\<lambda>c k. if c = [] \<or> k = [] then None else Some (c, k)),
       parseCertificate = (\<lambda>d. Some \<lparr>SerialNumber = 1, Organization = [], CommonName = ''HTTPSify Root CA'',
            NotBefore = 0, NotAfter = 1, KeyUsage = 96, ExtKeyUsages = [],
            BasicConstraintsValid = True, IsCA = True, MaxPathLen = 1, MaxPathLenZero = False,
            DNSNames = [], IPAddresses = []\<rparr>),
       marshalECPrivateKey = (\<lambda>k. Some ''key''),
       pemEncode = (\<lambda>t b. t @ '':'' @ b @ '';''),
       addDate = (\<lambda>t y m d. t + y * 31536000000000000),
       pathDir = (\<lambda>p. ''cert''),
       pathJoin = (\<lambda>d f. d @ ''/'' @ f)\<rparr>
        \<lparr>clock = (\<lambda>n. 1700000000000000000), generateKey = (\<lambda>n. Some n), randInt = Some 42,
       createCertificate = (\<lambda>t p pub priv. Some (CommonName t)),
       mkdirAllOK = (\<lambda>d. True), openOK = (\<lambda>p. True), writeOK = (\<lambda>n. True)\<rparr>)
     0
   \<and> \<not> permitsIntermediates
     (caTemplate
        \<lparr>x509KeyPair = (\<lambda>c k. if c = [] \<or> k = [] then None else Some (c, k)),
       parseCertificate = (\<lambda>d. Some \<lparr>SerialNumber = 1, Organization = [], CommonName = ''HTTPSify Root CA'',
            NotBefore = 0, NotAfter = 1, KeyUsage = 96, ExtKeyUsages = [],
            BasicConstraintsValid = True, IsCA = True, MaxPathLen = 1, MaxPathLenZero = False,
            DNSNames = [], IPAddresses = []\<rparr>),
       marshalECPrivateKey = (\<lambda>k. Some ''key''),
       pemEncode = (\<lambda>t b. t @ '':'' @ b @ '';''),
       addDate = (\<lambda>t y m d. t + y * 31536000000000000),
       pathDir = (\<lambda>p. ''cert''),
       pathJoin = (\<lambda>d f. d @ ''/'' @ f)\<rparr>
        \<lparr>clock = (\<lambda>n. 1700000000000000000), generateKey = (\<lambda>n. Some n), randInt = Some 42,
       createCertificate = (\<lambda>t p pub priv. Some (CommonName t)),
       mkdirAllOK = (\<lambda>d. True), openOK = (\<lambda>p. True), writeOK = (\<lambda>n. True)\<rparr>)
     2
   \<and> NotAfter
     (caTemplate
        \<lparr>x509KeyPair = (\<lambda>c k. if c = [] \<or> k = [] then None else Some (c, k)),
       parseCertificate = (\<lambda>d. Some \<lparr>SerialNumber = 1, Organization = [], CommonName = ''HTTPSify Root CA'',
            NotBefore = 0, NotAfter = 1, KeyUsage = 96, ExtKeyUsages = [],
            BasicConstraintsValid = True, IsCA = True, MaxPathLen = 1, MaxPathLenZero = False,
            DNSNames = [], IPAddresses = []\<rparr>),
       marshalECPrivateKey = (\<lambda>k. Some ''key''),
       pemEncode = (\<lambda>t b. t @ '':'' @ b @ '';''),
       addDate = (\<lambda>t y m d. t + y * 31536000000000000),
       pathDir = (\<lambda>p. ''cert''),
       pathJoin = (\<lambda>d f. d @ ''/'' @ f)\<rparr>
        \<lparr>clock = (\<lambda>n. 1700000000000000000), generateKey = (\<lambda>n. Some n), randInt = Some 42,
       createCertificate = (\<lambda>t p pub priv. Some (CommonName t)),
       mkdirAllOK = (\<lambda>d. True), openOK = (\<lambda>p. True), writeOK = (\<lambda>n. True)\<rparr>)
     = 2015360000000000000"
  using caTemplate_constraints
    [of "\<lparr>x509KeyPair = (\<lambda>c k. if c = [] \<or> k = [] then None else Some (c, k)),
       parseCertificate = (\<lambda>d. Some \<lparr>SerialNumber = 1, Organization = [], CommonName = ''HTTPSify Root CA'',
            NotBefore = 0, NotAfter = 1, KeyUsage = 96, ExtKeyUsages = [],
            BasicConstraintsValid = True, IsCA = True, MaxPathLen = 1, MaxPathLenZero = False,
            DNSNames = [], IPAddresses = []\<rparr>),
       marshalECPrivateKey = (\<lambda>k. Some ''key''),
       pemEncode = (\<lambda>t b. t @ '':'' @ b @ '';''),
       addDate = (\<lambda>t y m d. t + y * 31536000000000000),
       pathDir = (\<lambda>p. ''cert''),
       pathJoin = (\<lambda>d f. d @ ''/'' @ f)\<rparr>"
        "\<lparr>clock = (\<lambda>n. 1700000000000000000), generateKey = (\<lambda>n. Some n), randInt = Some 42,
       createCertificate = (\<lambda>t p pub priv. Some (CommonName t)),
       mkdirAllOK = (\<lambda>d. True), openOK = (\<lambda>p. True), writeOK = (\<lambda>n. True)\<rparr>"]
  by simp

end
